theory Spec2Isabelle
  imports Main
begin

section \<open>JavaScript values used by the panel\<close>

text \<open>
  The panel (\<^verbatim>\<open>src/App.jsx\<close>) is a React component: a set of state variables and
  handlers that talk to the backend through \<^verbatim>\<open>invoke\<close>, to the local network through
  an ethers \<^verbatim>\<open>JsonRpcProvider\<close>, and to the browser's timers. Strings are lists of
  characters; the characters are the code units up to U+00FF.
\<close>

datatype jsval = JUndefined | JNull | JBool bool | JNum int | JStr string | JArr "string list"

type_synonym jsobj = "(string \<times> jsval) list"

text \<open>Property read \<^verbatim>\<open>obj.key\<close>: the last binding of the key, \<^verbatim>\<open>undefined\<close> when absent.\<close>

definition js_get :: "jsobj \<Rightarrow> string \<Rightarrow> jsval" where
  "js_get obj k = (case map_of (rev obj) k of None \<Rightarrow> JUndefined | Some v \<Rightarrow> v)"

fun truthy :: "jsval \<Rightarrow> bool" where
  "truthy JUndefined = False"
| "truthy JNull = False"
| "truthy (JBool b) = b"
| "truthy (JNum n) = (n \<noteq> 0)"
| "truthy (JStr s) = (s \<noteq> [])"
| "truthy (JArr xs) = True"

text \<open>
  A value that is a string, \<^verbatim>\<open>null\<close> or \<^verbatim>\<open>undefined\<close> is a \<open>string option\<close>;
  \<^verbatim>\<open>a || b\<close> on such values keeps \<open>a\<close> when it is a non-empty string.
\<close>

fun truthy_str :: "string option \<Rightarrow> bool" where
  "truthy_str None = False"
| "truthy_str (Some p) = (p \<noteq> [])"

fun or_else :: "string option \<Rightarrow> string option \<Rightarrow> string option" where
  "or_else None b = b"
| "or_else (Some p) b = (if p \<noteq> [] then Some p else b)"

fun of_path :: "string option \<Rightarrow> jsval" where
  "of_path None = JNull"
| "of_path (Some p) = JStr p"

subsection \<open>String methods\<close>

text \<open>\<^verbatim>\<open>String.prototype.trim\<close> removes white space and line terminators at both ends.\<close>

definition is_js_space :: "char \<Rightarrow> bool" where
  "is_js_space ch = ((of_char ch :: nat) \<in> {9, 10, 11, 12, 13, 32, 160})"

definition js_trim :: "string \<Rightarrow> string" where
  "js_trim s = rev (dropWhile is_js_space (rev (dropWhile is_js_space s)))"

text \<open>\<^verbatim>\<open>s.split(d)\<close> for a one-character separator; the empty string gives one empty piece.\<close>

fun js_split :: "char \<Rightarrow> string \<Rightarrow> string list" where
  "js_split d [] = [[]]"
| "js_split d (x # xs) =
     (if x = d then [] # js_split d xs
      else (case js_split d xs of
              [] \<Rightarrow> [[x]]
            | w # ws \<Rightarrow> (x # w) # ws))"

text \<open>\<^verbatim>\<open>s.replace(pat, rep)\<close> with a string pattern: the first occurrence only.\<close>

fun js_replace :: "string \<Rightarrow> string \<Rightarrow> string \<Rightarrow> string" where
  "js_replace pat rep [] = (if pat = [] then rep else [])"
| "js_replace pat rep (x # xs) =
     (if take (length pat) (x # xs) = pat then rep @ drop (length pat) (x # xs)
      else x # js_replace pat rep xs)"

text \<open>\<^verbatim>\<open>s.slice(-n)\<close>: the last \<open>n\<close> characters, the whole string when it is shorter.\<close>

definition js_slice_last :: "nat \<Rightarrow> string \<Rightarrow> string" where
  "js_slice_last n s = drop (length s - n) s"

subsection \<open>Numbers\<close>

text \<open>
  \<^verbatim>\<open>Number(n)\<close> of a bigint is the double nearest to \<open>n\<close>: exact up to 53 bits,
  beyond that rounded to 53 significant bits with ties to the even neighbour, and
  infinite when the rounded value needs more than 1024 bits.
\<close>

datatype js_number = Num int | PosInfinity | NegInfinity

fun bit_length :: "nat \<Rightarrow> nat" where
  "bit_length n = (if n = 0 then 0 else Suc (bit_length (n div 2)))"

declare bit_length.simps [simp del]

definition round_to_double :: "nat \<Rightarrow> nat" where
  "round_to_double m =
     (if bit_length m \<le> 53 then m
      else
        (let e = bit_length m - 53;
             q = m div 2 ^ e;
             r = m mod 2 ^ e;
             half = 2 ^ (e - 1);
             q' = (if r > half \<or> (r = half \<and> odd q) then q + 1 else q)
         in q' * 2 ^ e))"

definition Number_of_bigint :: "int \<Rightarrow> js_number" where
  "Number_of_bigint n =
     (let m = round_to_double (nat \<bar>n\<bar>)
      in if bit_length m > 1024 then (if n < 0 then NegInfinity else PosInfinity)
         else Num (if n < 0 then - int m else int m))"

section \<open>State of the component\<close>

record ToolchainStatus =
  installed :: bool
  version :: "string option"
  project_detected :: bool
  project_path :: "string option"
  network_running :: bool

record network_info =
  net_name :: string
  chainId :: js_number
  blockNumber :: int

text \<open>The balance is kept in wei; \<^verbatim>\<open>ethers.formatEther\<close> only changes how it is shown.\<close>

record account =
  address :: string
  balance :: int
  shortAddress :: string

record verify_form =
  contractAddress :: string
  constructorArgs :: string
  contractName :: string

text \<open>
  One field for each \<^verbatim>\<open>useState\<close> of \<^verbatim>\<open>HardhatApp\<close> that a handler reads or writes.
  \<open>tauri_invoke\<close> and \<open>tauri_open\<close> say whether \<^verbatim>\<open>tauriApis.invoke\<close> and
  \<^verbatim>\<open>tauriApis.open\<close> have been loaded; \<open>isTauri\<close> is the module constant, fixed for
  the lifetime of the page.
\<close>

record app =
  isTauri :: bool
  tauri_invoke :: bool
  tauri_open :: bool
  accounts :: "account list"
  loading :: bool
  error :: "string option"
  networkInfo :: "network_info option"
  hardhatStatus :: "ToolchainStatus option"
  selectedProjectPath :: string
  currentProjectPath :: string
  isManaging :: bool
  managementMessage :: string
  contracts :: "jsobj list"
  compilationStatus :: "(bool \<times> string) option"
  testResults :: "(bool \<times> string) option"
  deploymentStatus :: "(bool \<times> string) option"
  consoleOutput :: "(string \<times> string) list"
  consoleInput :: string
  autoRefresh :: bool
  refreshInterval :: "nat option"
  isLoadingContracts :: bool
  verifyModalOpened :: bool
  verifyForm :: verify_form

section \<open>Effects and replies\<close>

text \<open>
  What a handler does to the outside is a list of effects, in program order. A timer
  carries the callback it was given; \<open>ResolveDelay\<close> is the \<^verbatim>\<open>resolve\<close> of the
  one-second pause in \<^verbatim>\<open>handleCompileContracts\<close>. Console logging is left out.
\<close>

datatype callback =
    CheckStatusLater "string option"
  | AfterNetworkStart string
  | Refresh
  | ResolveDelay

datatype effect =
    Invoke string jsobj
  | OpenDialog
  | Rpc string string
  | SetTimeout callback nat
  | SetInterval nat callback nat
  | ClearInterval nat
  | Notify string string string

text \<open>A promise either rejects (\<open>Inl\<close>, with the error text) or resolves (\<open>Inr\<close>).\<close>

type_synonym 'a reply = "string + 'a"

text \<open>
  An element of what \<^verbatim>\<open>provider.listAccounts()\<close> resolves to: an address string, or a
  signer object with an \<^verbatim>\<open>address\<close> property. \<^verbatim>\<open>provider.getBalance\<close> takes either
  and asks for the balance of the address; the chain id of \<^verbatim>\<open>getNetwork\<close> is a bigint.
\<close>

datatype account_ref = AddressString string | Signer string

fun address_of :: "account_ref \<Rightarrow> string" where
  "address_of (AddressString a) = a"
| "address_of (Signer a) = a"

record rpc_replies =
  getNetwork :: "(string \<times> int) reply"
  getBlockNumber :: "int reply"
  listAccounts :: "account_ref list reply"
  getBalance :: "string \<Rightarrow> int reply"

record replies =
  status_reply :: "ToolchainStatus option reply"
  text_reply :: "string reply"
  contracts_reply :: "jsobj list reply"
  dialog_reply :: "string option reply"
  rpc :: rpc_replies
  import_ok :: bool
  timer_id :: nat

text \<open>\<^verbatim>\<open>Promise.all\<close>: the results in order, or the first rejection.\<close>

fun promise_all :: "'a reply list \<Rightarrow> 'a list reply" where
  "promise_all [] = Inr []"
| "promise_all (Inl e # rs) = Inl e"
| "promise_all (Inr v # rs) = (case promise_all rs of Inl e \<Rightarrow> Inl e | Inr vs \<Rightarrow> Inr (v # vs))"

section \<open>Handlers of HardhatApp\<close>

text \<open>
  Every handler is a closure of one render: it reads the state variables of that render
  (\<open>c\<close>) and its setter calls build the next state (from \<open>s\<close>). A handler runs to its
  end in one step; the replies of the promises it awaits are arguments.
\<close>

definition fallback_status :: ToolchainStatus where
  "fallback_status =
     \<lparr>installed = False, version = None, project_detected = False,
      project_path = None, network_running = False\<rparr>"

definition checkHardhatStatus ::
  "app \<Rightarrow> string option \<Rightarrow> ToolchainStatus option reply \<Rightarrow> app
   \<Rightarrow> ToolchainStatus option \<times> app \<times> effect list" where
  "checkHardhatStatus c projectPath reply s =
     (if \<not> isTauri c \<or> \<not> tauri_invoke c then
        (None, s\<lparr>hardhatStatus := Some fallback_status\<rparr>, [])
      else
        (let call = Invoke ''check_hardhat_status'' [(''projectPath'', of_path projectPath)]
         in case reply of
              Inl err \<Rightarrow>
                (None, s\<lparr>error := Some (''Failed to check Hardhat status: '' @ err)\<rparr>, [call])
            | Inr status \<Rightarrow>
                (let s1 = s\<lparr>hardhatStatus := status\<rparr>
                 in case status of
                      None \<Rightarrow> (status, s1, [call])
                    | Some st \<Rightarrow>
                        (case project_path st of
                           None \<Rightarrow> (status, s1, [call])
                         | Some p \<Rightarrow>
                             if project_detected st \<and> p \<noteq> [] then
                               (status,
                                s1\<lparr>currentProjectPath := p, selectedProjectPath := p\<rparr>,
                                [call])
                             else (status, s1, [call])))))"

definition short_address :: "string \<Rightarrow> string" where
  "short_address a = take 6 a @ ''...'' @ js_slice_last 4 a"

text \<open>
  \<^verbatim>\<open>loadBlockchainData\<close> of \<^verbatim>\<open>HardhatApp\<close>. Each account is reduced to its address
  first (\<^verbatim>\<open>typeof account === 'string' ? account : account.address\<close>). All balance
  requests are issued before any is awaited; of several rejections the first in the
  order of the accounts is taken.
\<close>

definition loadBlockchainData :: "rpc_replies \<Rightarrow> app \<Rightarrow> app \<times> effect list" where
  "loadBlockchainData r s =
     (let provider = ''http://localhost:8545'';
          s0 = s\<lparr>loading := True, error := None\<rparr>;
          e1 = [Rpc provider ''getNetwork''];
          e2 = e1 @ [Rpc provider ''getBlockNumber''];
          e3 = e2 @ [Rpc provider ''listAccounts'']
      in case getNetwork r of
           Inl msg \<Rightarrow> (s0\<lparr>error := Some msg, loading := False\<rparr>, e1)
         | Inr (name, chain) \<Rightarrow>
        (case getBlockNumber r of
           Inl msg \<Rightarrow> (s0\<lparr>error := Some msg, loading := False\<rparr>, e2)
         | Inr block \<Rightarrow>
        (let s1 = s0\<lparr>networkInfo :=
                        Some \<lparr>net_name = name, chainId = Number_of_bigint chain,
                              blockNumber = block\<rparr>\<rparr>
         in case listAccounts r of
              Inl msg \<Rightarrow> (s1\<lparr>error := Some msg, loading := False\<rparr>, e3)
            | Inr accountAddresses \<Rightarrow>
           (let e4 = e3 @ map (\<lambda>account. Rpc provider ''getBalance'') accountAddresses;
                results = map (\<lambda>account.
                                 let a = address_of account
                                 in case getBalance r a of
                                      Inl msg \<Rightarrow> Inl msg
                                    | Inr wei \<Rightarrow>
                                        Inr \<lparr>address = a, balance = wei,
                                             shortAddress = short_address a\<rparr>)
                            accountAddresses
            in case promise_all results of
                 Inl msg \<Rightarrow> (s1\<lparr>error := Some msg, loading := False\<rparr>, e4)
               | Inr accs \<Rightarrow> (s1\<lparr>accounts := accs, loading := False\<rparr>, e4)))))"

definition handleInstallHardhat :: "app \<Rightarrow> string reply \<Rightarrow> app \<Rightarrow> app \<times> effect list" where
  "handleInstallHardhat c reply s =
     (if \<not> isTauri c \<or> \<not> tauri_invoke c then
        (s\<lparr>error := Some ''Hardhat installation requires the desktop app''\<rparr>, [])
      else
        (let call = Invoke ''install_hardhat'' []
         in case reply of
              Inr result \<Rightarrow>
                (s\<lparr>isManaging := False, managementMessage := ''Installing Hardhat globally...''\<rparr>,
                 [call, Notify ''Installation Complete'' result ''green'',
                  SetTimeout (CheckStatusLater None) 2000])
            | Inl err \<Rightarrow>
                (s\<lparr>isManaging := False, managementMessage := ''Installation failed: '' @ err\<rparr>,
                 [call, Notify ''Installation Failed'' err ''red''])))"

definition handleSelectProject ::
  "app \<Rightarrow> string option reply \<Rightarrow> ToolchainStatus option reply \<Rightarrow> app \<Rightarrow> app \<times> effect list" where
  "handleSelectProject c dialog reply s =
     (if \<not> isTauri c \<or> \<not> tauri_open c then
        (s\<lparr>error := Some ''Project selection requires the desktop app''\<rparr>, [])
      else
        (case dialog of
           Inl err \<Rightarrow> (s\<lparr>error := Some (''Failed to select directory: '' @ err)\<rparr>, [OpenDialog])
         | Inr selected \<Rightarrow>
             (case selected of
                None \<Rightarrow> (s, [OpenDialog])
              | Some p \<Rightarrow>
                  if p = [] then (s, [OpenDialog])
                  else
                    (case checkHardhatStatus c (Some p) reply (s\<lparr>selectedProjectPath := p\<rparr>) of
                       (status, s1, e) \<Rightarrow> (s1, OpenDialog # e)))))"

definition handleCreateProject :: "app \<Rightarrow> string reply \<Rightarrow> app \<Rightarrow> app \<times> effect list" where
  "handleCreateProject c reply s =
     (if \<not> isTauri c \<or> \<not> tauri_invoke c then
        (s\<lparr>error := Some ''Project creation requires the desktop app''\<rparr>, [])
      else if selectedProjectPath c = [] then
        (s\<lparr>error := Some ''Please select a directory first''\<rparr>, [])
      else
        (let call = Invoke ''create_hardhat_project''
                      [(''projectPath'', JStr (selectedProjectPath c))]
         in case reply of
              Inr result \<Rightarrow>
                (s\<lparr>isManaging := False, managementMessage := ''Creating new Hardhat project...''\<rparr>,
                 [call, Notify ''Project Created'' result ''green'',
                  SetTimeout (CheckStatusLater (Some (selectedProjectPath c))) 2000])
            | Inl err \<Rightarrow>
                (s\<lparr>isManaging := False, managementMessage := ''Project creation failed: '' @ err\<rparr>,
                 [call, Notify ''Project Creation Failed'' err ''red''])))"

definition status_path :: "ToolchainStatus option \<Rightarrow> string option" where
  "status_path st = (case st of None \<Rightarrow> None | Some t \<Rightarrow> project_path t)"

definition status_running :: "ToolchainStatus option \<Rightarrow> bool" where
  "status_running st = (case st of None \<Rightarrow> False | Some t \<Rightarrow> network_running t)"

definition handleStartNetwork :: "app \<Rightarrow> string reply \<Rightarrow> app \<Rightarrow> app \<times> effect list" where
  "handleStartNetwork c reply s =
     (if \<not> isTauri c \<or> \<not> tauri_invoke c then
        (s\<lparr>error := Some ''Network management requires the desktop app''\<rparr>, [])
      else
        (case or_else (Some (currentProjectPath c)) (status_path (hardhatStatus c)) of
           None \<Rightarrow> (s\<lparr>error := Some ''No Hardhat project detected''\<rparr>, [])
         | Some p \<Rightarrow>
             if p = [] then (s\<lparr>error := Some ''No Hardhat project detected''\<rparr>, [])
             else
               (let call = Invoke ''start_hardhat_network'' [(''projectPath'', JStr p)]
                in case reply of
                     Inr result \<Rightarrow>
                       (s\<lparr>isManaging := False, managementMessage := ''Starting Hardhat network...''\<rparr>,
                        [call, Notify ''Network Started'' result ''green'',
                         SetTimeout (AfterNetworkStart p) 3000])
                   | Inl err \<Rightarrow>
                       (s\<lparr>isManaging := False,
                          managementMessage := ''Network start failed: '' @ err\<rparr>,
                        [call, Notify ''Network Start Failed'' err ''red'']))))"

definition handleRefresh ::
  "app \<Rightarrow> ToolchainStatus option reply \<Rightarrow> rpc_replies \<Rightarrow> app \<Rightarrow> app \<times> effect list" where
  "handleRefresh c reply r s =
     (let projectPath =
            or_else (Some (currentProjectPath c))
              (or_else (status_path (hardhatStatus c))
                 (or_else (Some (selectedProjectPath c)) None))
      in case checkHardhatStatus c projectPath reply s of
           (status, s1, e1) \<Rightarrow>
             (case loadBlockchainData r s1 of (s2, e2) \<Rightarrow> (s2, e1 @ e2)))"

definition toggleAutoRefresh :: "app \<Rightarrow> nat \<Rightarrow> app \<Rightarrow> app \<times> effect list" where
  "toggleAutoRefresh c new_id s =
     (if autoRefresh c then
        (case refreshInterval c of
           None \<Rightarrow> (s\<lparr>autoRefresh := False\<rparr>, [])
         | Some i \<Rightarrow>
             if i \<noteq> 0 then (s\<lparr>refreshInterval := None, autoRefresh := False\<rparr>, [ClearInterval i])
             else (s\<lparr>autoRefresh := False\<rparr>, []))
      else
        (s\<lparr>refreshInterval := Some new_id, autoRefresh := True\<rparr>,
         [SetInterval new_id Refresh 10000]))"

definition loadContracts :: "app \<Rightarrow> jsobj list reply \<Rightarrow> app \<Rightarrow> app \<times> effect list" where
  "loadContracts c reply s =
     (if currentProjectPath c = [] \<or> \<not> isTauri c \<or> \<not> tauri_invoke c then (s, [])
      else
        (let call = Invoke ''list_contracts'' [(''projectPath'', JStr (currentProjectPath c))]
         in case reply of
              Inr contractsList \<Rightarrow>
                (s\<lparr>contracts := contractsList, isLoadingContracts := False\<rparr>, [call])
            | Inl err \<Rightarrow> (s\<lparr>isLoadingContracts := False\<rparr>, [call])))"

definition handleCompileContracts ::
  "app \<Rightarrow> string reply \<Rightarrow> jsobj list reply \<Rightarrow> app \<Rightarrow> app \<times> effect list" where
  "handleCompileContracts c reply listing s =
     (if currentProjectPath c = [] \<or> \<not> isTauri c \<or> \<not> tauri_invoke c then (s, [])
      else
        (let call = Invoke ''compile_contracts'' [(''projectPath'', JStr (currentProjectPath c))]
         in case reply of
              Inr result \<Rightarrow>
                (case loadContracts c listing (s\<lparr>compilationStatus := Some (True, result)\<rparr>) of
                   (s1, e) \<Rightarrow>
                     (s1\<lparr>isManaging := False, managementMessage := []\<rparr>,
                      [call,
                       Notify ''Compilation Successful'' ''All contracts compiled successfully''
                         ''green'',
                       SetTimeout ResolveDelay 1000] @ e @
                      [Notify ''Contracts Updated'' ''Contract compilation status refreshed''
                         ''blue'']))
            | Inl err \<Rightarrow>
                (s\<lparr>compilationStatus := Some (False, err), isManaging := False,
                   managementMessage := []\<rparr>,
                 [call, Notify ''Compilation Failed'' err ''red''])))"

definition handleRunTests :: "app \<Rightarrow> string reply \<Rightarrow> app \<Rightarrow> app \<times> effect list" where
  "handleRunTests c reply s =
     (if currentProjectPath c = [] \<or> \<not> isTauri c \<or> \<not> tauri_invoke c then (s, [])
      else
        (let call = Invoke ''run_tests'' [(''projectPath'', JStr (currentProjectPath c))]
         in case reply of
              Inr result \<Rightarrow>
                (s\<lparr>testResults := Some (True, result), isManaging := False,
                   managementMessage := []\<rparr>,
                 [call, Notify ''Tests Completed'' ''All tests passed successfully'' ''green''])
            | Inl err \<Rightarrow>
                (s\<lparr>testResults := Some (False, err), isManaging := False,
                   managementMessage := []\<rparr>,
                 [call, Notify ''Tests Failed'' ''Some tests failed'' ''red''])))"

definition handleDeployContracts :: "app \<Rightarrow> string reply \<Rightarrow> app \<Rightarrow> app \<times> effect list" where
  "handleDeployContracts c reply s =
     (if currentProjectPath c = [] \<or> \<not> isTauri c \<or> \<not> tauri_invoke c then (s, [])
      else
        (let call = Invoke ''deploy_contracts'' [(''projectPath'', JStr (currentProjectPath c))]
         in case reply of
              Inr result \<Rightarrow>
                (s\<lparr>deploymentStatus := Some (True, result), isManaging := False,
                   managementMessage := []\<rparr>,
                 [call, Notify ''Deployment Successful'' ''Contracts deployed successfully''
                          ''green''])
            | Inl err \<Rightarrow>
                (s\<lparr>deploymentStatus := Some (False, err), isManaging := False,
                   managementMessage := []\<rparr>,
                 [call, Notify ''Deployment Failed'' err ''red''])))"

definition handleConsoleCommand :: "app \<Rightarrow> string reply \<Rightarrow> app \<Rightarrow> app \<times> effect list" where
  "handleConsoleCommand c reply s =
     (if js_trim (consoleInput c) = [] \<or> currentProjectPath c = [] \<or> \<not> isTauri c
         \<or> \<not> tauri_invoke c then (s, [])
      else
        (let command = js_trim (consoleInput c);
             s1 = s\<lparr>consoleOutput := consoleOutput s @ [(''input'', ''> '' @ command)],
                    consoleInput := []\<rparr>;
             call = Invoke ''run_hardhat_console_command''
                      [(''projectPath'', JStr (currentProjectPath c)), (''command'', JStr command)]
         in case reply of
              Inr result \<Rightarrow>
                (s1\<lparr>consoleOutput := consoleOutput s1 @ [(''output'', result)]\<rparr>, [call])
            | Inl err \<Rightarrow>
                (s1\<lparr>consoleOutput := consoleOutput s1 @ [(''error'', err)]\<rparr>, [call])))"

definition handleHardhatTask :: "app \<Rightarrow> string \<Rightarrow> string reply \<Rightarrow> app \<Rightarrow> app \<times> effect list" where
  "handleHardhatTask c taskName reply s =
     (if currentProjectPath c = [] \<or> \<not> isTauri c \<or> \<not> tauri_invoke c then (s, [])
      else if taskName = ''verify'' then (s\<lparr>verifyModalOpened := True\<rparr>, [])
      else
        (let call = Invoke ''run_hardhat_task''
                      [(''projectPath'', JStr (currentProjectPath c)), (''task'', JStr taskName),
                       (''args'', JArr [])]
         in case reply of
              Inr result \<Rightarrow>
                (s, [call,
                     Notify (taskName @ '' Task Completed'')
                       (take 100 result @ (if length result > 100 then ''...'' else []))
                       ''green''])
            | Inl err \<Rightarrow> (s, [call, Notify (taskName @ '' Task Failed'') err ''red''])))"

text \<open>The argument list that \<^verbatim>\<open>handleVerifyContract\<close> builds from the form.\<close>

definition verify_args :: "verify_form \<Rightarrow> string list" where
  "verify_args f =
     (let args = [contractAddress f];
          args1 = (if contractName f \<noteq> [] then args @ [''--contract'', contractName f] else args)
      in if constructorArgs f \<noteq> [] then
           (let cargs = filter (\<lambda>arg. length arg > 0)
                          (map js_trim (js_split (CHR '','') (constructorArgs f)))
            in if length cargs > 0 then args1 @ ''--constructor-args'' # cargs else args1)
         else args1)"

definition handleVerifyContract :: "app \<Rightarrow> string reply \<Rightarrow> app \<Rightarrow> app \<times> effect list" where
  "handleVerifyContract c reply s =
     (if currentProjectPath c = [] \<or> \<not> tauri_invoke c \<or> contractAddress (verifyForm c) = [] then
        (s, [Notify ''Verification Failed'' ''Please provide a contract address'' ''red''])
      else
        (let call = Invoke ''run_hardhat_task''
                      [(''projectPath'', JStr (currentProjectPath c)), (''task'', JStr ''verify''),
                       (''args'', JArr (verify_args (verifyForm c)))]
         in case reply of
              Inr result \<Rightarrow>
                (s\<lparr>verifyModalOpened := False,
                   verifyForm := \<lparr>contractAddress = [], constructorArgs = [], contractName = []\<rparr>,
                   isManaging := False, managementMessage := []\<rparr>,
                 [call, Notify ''Verification Successful'' ''Contract verified successfully''
                          ''green''])
            | Inl err \<Rightarrow>
                (s\<lparr>isManaging := False, managementMessage := []\<rparr>,
                 [call, Notify ''Verification Failed'' err ''red''])))"

subsection \<open>Effects of rendering and timer callbacks\<close>

text \<open>The mount effect that imports the Tauri APIs; \<open>ok\<close> says whether the import worked.\<close>

definition loadTauriApis :: "app \<Rightarrow> bool \<Rightarrow> app \<Rightarrow> app \<times> effect list" where
  "loadTauriApis c ok s =
     (if isTauri c \<and> ok then (s\<lparr>tauri_invoke := True, tauri_open := True\<rparr>, []) else (s, []))"

definition initializeApp ::
  "app \<Rightarrow> ToolchainStatus option reply \<Rightarrow> rpc_replies \<Rightarrow> app \<Rightarrow> app \<times> effect list" where
  "initializeApp c reply r s =
     (if isTauri c then
        (case checkHardhatStatus c None reply s of
           (status, s1, e1) \<Rightarrow>
             if status_running (hardhatStatus c) then
               (case loadBlockchainData r s1 of (s2, e2) \<Rightarrow> (s2, e1 @ e2))
             else (s1\<lparr>loading := False\<rparr>, e1))
      else loadBlockchainData r s)"

definition initializeEffect ::
  "app \<Rightarrow> ToolchainStatus option reply \<Rightarrow> rpc_replies \<Rightarrow> app \<Rightarrow> app \<times> effect list" where
  "initializeEffect c reply r s =
     (if isTauri c \<and> \<not> tauri_invoke c then (s, []) else initializeApp c reply r s)"

definition contractsEffect :: "app \<Rightarrow> jsobj list reply \<Rightarrow> app \<Rightarrow> app \<times> effect list" where
  "contractsEffect c reply s =
     (if currentProjectPath c \<noteq> [] then loadContracts c reply s else (s, []))"

text \<open>The cleanup of the interval effect, run on unmount and when the interval changes.\<close>

definition intervalCleanup :: "app \<Rightarrow> app \<Rightarrow> app \<times> effect list" where
  "intervalCleanup c s =
     (case refreshInterval c of
        None \<Rightarrow> (s, [])
      | Some i \<Rightarrow> if i \<noteq> 0 then (s, [ClearInterval i]) else (s, []))"

definition runCallback :: "app \<Rightarrow> callback \<Rightarrow> replies \<Rightarrow> app \<Rightarrow> app \<times> effect list" where
  "runCallback c cb r s =
     (case cb of
        CheckStatusLater p \<Rightarrow>
          (case checkHardhatStatus c p (status_reply r) s of
             (status, s1, e1) \<Rightarrow> (s1\<lparr>managementMessage := []\<rparr>, e1))
      | AfterNetworkStart p \<Rightarrow>
          (case checkHardhatStatus c (Some p) (status_reply r) s of
             (status, s1, e1) \<Rightarrow>
               (case loadBlockchainData (rpc r) s1 of
                  (s2, e2) \<Rightarrow> (s2\<lparr>managementMessage := []\<rparr>, e1 @ e2)))
      | Refresh \<Rightarrow> handleRefresh c (status_reply r) (rpc r) s
      | ResolveDelay \<Rightarrow> (s, []))"

subsection \<open>Everything that can run\<close>

datatype event =
    MountLoadApis
  | EffectInitialize
  | EffectContracts
  | EffectCleanup
  | ClickInstall
  | ClickSelectProject
  | ClickCreateProject
  | ClickStartNetwork
  | ClickRefresh
  | ClickAutoRefresh
  | ClickCompile
  | ClickRunTests
  | ClickDeploy
  | ClickTask string
  | SubmitVerify
  | SubmitConsole
  | TimerFired callback

definition dispatch :: "event \<Rightarrow> replies \<Rightarrow> app \<Rightarrow> app \<Rightarrow> app \<times> effect list" where
  "dispatch ev r c s =
     (case ev of
        MountLoadApis \<Rightarrow> loadTauriApis c (import_ok r) s
      | EffectInitialize \<Rightarrow> initializeEffect c (status_reply r) (rpc r) s
      | EffectContracts \<Rightarrow> contractsEffect c (contracts_reply r) s
      | EffectCleanup \<Rightarrow> intervalCleanup c s
      | ClickInstall \<Rightarrow> handleInstallHardhat c (text_reply r) s
      | ClickSelectProject \<Rightarrow> handleSelectProject c (dialog_reply r) (status_reply r) s
      | ClickCreateProject \<Rightarrow> handleCreateProject c (text_reply r) s
      | ClickStartNetwork \<Rightarrow> handleStartNetwork c (text_reply r) s
      | ClickRefresh \<Rightarrow> handleRefresh c (status_reply r) (rpc r) s
      | ClickAutoRefresh \<Rightarrow> toggleAutoRefresh c (timer_id r) s
      | ClickCompile \<Rightarrow> handleCompileContracts c (text_reply r) (contracts_reply r) s
      | ClickRunTests \<Rightarrow> handleRunTests c (text_reply r) s
      | ClickDeploy \<Rightarrow> handleDeployContracts c (text_reply r) s
      | ClickTask taskName \<Rightarrow> handleHardhatTask c taskName (text_reply r) s
      | SubmitVerify \<Rightarrow> handleVerifyContract c (text_reply r) s
      | SubmitConsole \<Rightarrow> handleConsoleCommand c (text_reply r) s
      | TimerFired cb \<Rightarrow> runCallback c cb r s)"

section \<open>Handlers of the first App component\<close>

text \<open>
  The file opens with an earlier \<^verbatim>\<open>App\<close> component: it calls \<^verbatim>\<open>invoke\<close> directly,
  has no current project path and no guard on the bridge.
\<close>

text \<open>
  Its \<^verbatim>\<open>loadBlockchainData\<close> takes each element of \<^verbatim>\<open>listAccounts\<close> for the address
  itself: the balance is requested and awaited, and then \<^verbatim>\<open>address.slice\<close> is called
  on the element, which throws a TypeError when the element is a signer object. The
  rejection goes through \<^verbatim>\<open>Promise.all\<close> to the \<^verbatim>\<open>catch\<close>, and no account is
  stored.
\<close>

definition App_loadBlockchainData :: "rpc_replies \<Rightarrow> app \<Rightarrow> app \<times> effect list" where
  "App_loadBlockchainData r s =
     (let provider = ''http://localhost:8545'';
          s0 = s\<lparr>loading := True, error := None\<rparr>;
          e1 = [Rpc provider ''getNetwork''];
          e2 = e1 @ [Rpc provider ''getBlockNumber''];
          e3 = e2 @ [Rpc provider ''listAccounts'']
      in case getNetwork r of
           Inl msg \<Rightarrow> (s0\<lparr>error := Some msg, loading := False\<rparr>, e1)
         | Inr (name, chain) \<Rightarrow>
        (case getBlockNumber r of
           Inl msg \<Rightarrow> (s0\<lparr>error := Some msg, loading := False\<rparr>, e2)
         | Inr block \<Rightarrow>
        (let s1 = s0\<lparr>networkInfo :=
                        Some \<lparr>net_name = name, chainId = Number_of_bigint chain,
                              blockNumber = block\<rparr>\<rparr>
         in case listAccounts r of
              Inl msg \<Rightarrow> (s1\<lparr>error := Some msg, loading := False\<rparr>, e3)
            | Inr accountAddresses \<Rightarrow>
           (let e4 = e3 @ map (\<lambda>address. Rpc provider ''getBalance'') accountAddresses;
                results = map (\<lambda>address.
                                 case getBalance r (address_of address) of
                                   Inl msg \<Rightarrow> Inl msg
                                 | Inr wei \<Rightarrow>
                                     (case address of
                                        AddressString a \<Rightarrow>
                                          Inr \<lparr>address = a, balance = wei,
                                               shortAddress = short_address a\<rparr>
                                      | Signer a \<Rightarrow>
                                          Inl ''address.slice is not a function''))
                            accountAddresses
            in case promise_all results of
                 Inl msg \<Rightarrow> (s1\<lparr>error := Some msg, loading := False\<rparr>, e4)
               | Inr accs \<Rightarrow> (s1\<lparr>accounts := accs, loading := False\<rparr>, e4)))))"

definition App_checkHardhatStatus ::
  "string option \<Rightarrow> ToolchainStatus option reply \<Rightarrow> app
   \<Rightarrow> ToolchainStatus option \<times> app \<times> effect list" where
  "App_checkHardhatStatus projectPath reply s =
     (let call = Invoke ''check_hardhat_status'' [(''projectPath'', of_path projectPath)]
      in case reply of
           Inr status \<Rightarrow> (status, s\<lparr>hardhatStatus := status\<rparr>, [call])
         | Inl err \<Rightarrow>
             (None, s\<lparr>error := Some (''Failed to check Hardhat status: '' @ err)\<rparr>, [call]))"

definition App_handleInstallHardhat :: "string reply \<Rightarrow> app \<Rightarrow> app \<times> effect list" where
  "App_handleInstallHardhat reply s =
     (let call = Invoke ''install_hardhat'' []
      in case reply of
           Inr result \<Rightarrow>
             (s\<lparr>isManaging := False, managementMessage := result\<rparr>,
              [call, SetTimeout (CheckStatusLater None) 2000])
         | Inl err \<Rightarrow>
             (s\<lparr>isManaging := False, managementMessage := ''Installation failed: '' @ err\<rparr>,
              [call]))"

definition App_handleSelectProject ::
  "string option reply \<Rightarrow> ToolchainStatus option reply \<Rightarrow> app \<Rightarrow> app \<times> effect list" where
  "App_handleSelectProject dialog reply s =
     (case dialog of
        Inl err \<Rightarrow> (s\<lparr>error := Some (''Failed to select directory: '' @ err)\<rparr>, [OpenDialog])
      | Inr selected \<Rightarrow>
          (case selected of
             None \<Rightarrow> (s, [OpenDialog])
           | Some p \<Rightarrow>
               if p = [] then (s, [OpenDialog])
               else
                 (case App_checkHardhatStatus (Some p) reply (s\<lparr>selectedProjectPath := p\<rparr>) of
                    (status, s1, e) \<Rightarrow> (s1, OpenDialog # e))))"

definition App_handleCreateProject :: "app \<Rightarrow> string reply \<Rightarrow> app \<Rightarrow> app \<times> effect list" where
  "App_handleCreateProject c reply s =
     (if selectedProjectPath c = [] then
        (s\<lparr>error := Some ''Please select a directory first''\<rparr>, [])
      else
        (let call = Invoke ''create_hardhat_project''
                      [(''projectPath'', JStr (selectedProjectPath c))]
         in case reply of
              Inr result \<Rightarrow>
                (s\<lparr>isManaging := False, managementMessage := result\<rparr>,
                 [call, SetTimeout (CheckStatusLater (Some (selectedProjectPath c))) 2000])
            | Inl err \<Rightarrow>
                (s\<lparr>isManaging := False, managementMessage := ''Project creation failed: '' @ err\<rparr>,
                 [call])))"

definition App_handleStartNetwork :: "app \<Rightarrow> string reply \<Rightarrow> app \<Rightarrow> app \<times> effect list" where
  "App_handleStartNetwork c reply s =
     (case status_path (hardhatStatus c) of
        None \<Rightarrow> (s\<lparr>error := Some ''No Hardhat project detected''\<rparr>, [])
      | Some p \<Rightarrow>
          if p = [] then (s\<lparr>error := Some ''No Hardhat project detected''\<rparr>, [])
          else
            (let call = Invoke ''start_hardhat_network'' [(''projectPath'', JStr p)]
             in case reply of
                  Inr result \<Rightarrow>
                    (s\<lparr>isManaging := False, managementMessage := result\<rparr>,
                     [call, SetTimeout (AfterNetworkStart p) 3000])
                | Inl err \<Rightarrow>
                    (s\<lparr>isManaging := False,
                       managementMessage := ''Failed to start network: '' @ err\<rparr>,
                     [call])))"

definition App_handleRefresh ::
  "app \<Rightarrow> ToolchainStatus option reply \<Rightarrow> rpc_replies \<Rightarrow> app \<Rightarrow> app \<times> effect list" where
  "App_handleRefresh c reply r s =
     (case App_checkHardhatStatus (or_else (Some (selectedProjectPath c)) None) reply s of
        (status, s1, e1) \<Rightarrow>
          if status_running (hardhatStatus c) then
            (case App_loadBlockchainData r s1 of (s2, e2) \<Rightarrow> (s2, e1 @ e2))
          else (s1, e1))"

definition App_initializeApp ::
  "app \<Rightarrow> ToolchainStatus option reply \<Rightarrow> rpc_replies \<Rightarrow> app \<Rightarrow> app \<times> effect list" where
  "App_initializeApp c reply r s =
     (case App_checkHardhatStatus None reply s of
        (status, s1, e1) \<Rightarrow>
          if status_running (hardhatStatus c) then
            (case App_loadBlockchainData r s1 of (s2, e2) \<Rightarrow> (s2, e1 @ e2))
          else (s1\<lparr>loading := False\<rparr>, e1))"

definition App_runCallback :: "callback \<Rightarrow> replies \<Rightarrow> app \<Rightarrow> app \<times> effect list" where
  "App_runCallback cb r s =
     (case cb of
        CheckStatusLater p \<Rightarrow>
          (case App_checkHardhatStatus p (status_reply r) s of
             (status, s1, e1) \<Rightarrow> (s1\<lparr>managementMessage := []\<rparr>, e1))
      | AfterNetworkStart p \<Rightarrow>
          (case App_checkHardhatStatus (Some p) (status_reply r) s of
             (status, s1, e1) \<Rightarrow>
               (case App_loadBlockchainData (rpc r) s1 of
                  (s2, e2) \<Rightarrow> (s2\<lparr>managementMessage := []\<rparr>, e1 @ e2)))
      | Refresh \<Rightarrow> (s, [])
      | ResolveDelay \<Rightarrow> (s, []))"

datatype App_event =
    App_Mount
  | App_ClickInstall
  | App_ClickSelectProject
  | App_ClickCreateProject
  | App_ClickStartNetwork
  | App_ClickRefresh
  | App_TimerFired callback

definition App_dispatch :: "App_event \<Rightarrow> replies \<Rightarrow> app \<Rightarrow> app \<Rightarrow> app \<times> effect list" where
  "App_dispatch ev r c s =
     (case ev of
        App_Mount \<Rightarrow> App_initializeApp c (status_reply r) (rpc r) s
      | App_ClickInstall \<Rightarrow> App_handleInstallHardhat (text_reply r) s
      | App_ClickSelectProject \<Rightarrow> App_handleSelectProject (dialog_reply r) (status_reply r) s
      | App_ClickCreateProject \<Rightarrow> App_handleCreateProject c (text_reply r) s
      | App_ClickStartNetwork \<Rightarrow> App_handleStartNetwork c (text_reply r) s
      | App_ClickRefresh \<Rightarrow> App_handleRefresh c (status_reply r) (rpc r) s
      | App_TimerFired cb \<Rightarrow> App_runCallback cb r s)"

section \<open>The contracts panel\<close>

text \<open>
  \<^verbatim>\<open>renderContracts\<close> shows one card for each entry of \<^verbatim>\<open>contracts\<close>, the list that
  \<^verbatim>\<open>list_contracts\<close> returned. A card reads \<^verbatim>\<open>contract.name\<close>,
  \<^verbatim>\<open>contract.compiled\<close>, \<^verbatim>\<open>contract.path\<close> and \<^verbatim>\<open>contract.size\<close>. Calling
  \<^verbatim>\<open>.replace\<close> on a path that is not a string throws a TypeError, which aborts the
  render. The size line is shown when \<^verbatim>\<open>contract.size\<close> is truthy; how the number is
  formatted is left out.
\<close>

datatype js_error = TypeError

record contract_card =
  card_name :: jsval
  card_badge :: string
  card_path :: string
  card_size :: "jsval option"

definition renderContract :: "string \<Rightarrow> jsobj \<Rightarrow> js_error + contract_card" where
  "renderContract cur contract =
     (case js_get contract ''path'' of
        JStr p \<Rightarrow>
          Inr \<lparr>card_name = js_get contract ''name'',
               card_badge = (if truthy (js_get contract ''compiled'') then ''Compiled''
                             else ''Not Compiled''),
               card_path = js_replace (cur @ ''/'') [] p,
               card_size = (if truthy (js_get contract ''size'')
                            then Some (js_get contract ''size'') else None)\<rparr>
      | _ \<Rightarrow> Inl TypeError)"

fun render_all :: "(js_error + contract_card) list \<Rightarrow> js_error + contract_card list" where
  "render_all [] = Inr []"
| "render_all (Inl e # rs) = Inl e"
| "render_all (Inr v # rs) = (case render_all rs of Inl e \<Rightarrow> Inl e | Inr vs \<Rightarrow> Inr (v # vs))"

datatype contracts_panel = SelectProjectHint | NoContractsFound | Cards "contract_card list"

definition renderContracts :: "app \<Rightarrow> js_error + contracts_panel" where
  "renderContracts c =
     (if currentProjectPath c = [] then Inr SelectProjectHint
      else if length (contracts c) = 0 then Inr NoContractsFound
      else (case render_all (map (renderContract (currentProjectPath c)) (contracts c)) of
              Inl e \<Rightarrow> Inl e
            | Inr cards \<Rightarrow> Inr (Cards cards)))"

section \<open>Observations and example inputs\<close>

text \<open>The bridge calls among the effects of a handler, in order: command name and payload.\<close>

fun invocations :: "effect list \<Rightarrow> (string \<times> jsobj) list" where
  "invocations [] = []"
| "invocations (Invoke n p # es) = (n, p) # invocations es"
| "invocations (e # es) = invocations es"

text \<open>
  The table of the request/response bridge as the specification lists it: the command,
  the name under which the panel invokes it, and the inputs with the payload key of each.
\<close>

datatype input_kind = OptionalPath | ProjectPath | SourceText | TaskName | ArgumentList

type_synonym bridge_row = "string \<times> string \<times> (string \<times> input_kind) list"

definition bridge_table :: "bridge_row list" where
  "bridge_table =
     [(''check_status'', ''check_hardhat_status'', [(''projectPath'', OptionalPath)]),
      (''install_toolchain'', ''install_hardhat'', []),
      (''create_project'', ''create_hardhat_project'', [(''projectPath'', ProjectPath)]),
      (''start_network'', ''start_hardhat_network'', [(''projectPath'', ProjectPath)]),
      (''list_artifacts'', ''list_contracts'', [(''projectPath'', ProjectPath)]),
      (''compile'', ''compile_contracts'', [(''projectPath'', ProjectPath)]),
      (''run_tests'', ''run_tests'', [(''projectPath'', ProjectPath)]),
      (''deploy'', ''deploy_contracts'', [(''projectPath'', ProjectPath)]),
      (''console_eval'', ''run_hardhat_console_command'',
         [(''projectPath'', ProjectPath), (''command'', SourceText)]),
      (''run_task'', ''run_hardhat_task'',
         [(''projectPath'', ProjectPath), (''task'', TaskName), (''args'', ArgumentList)])]"

text \<open>A project path is a non-empty string; an optional one may also be \<^verbatim>\<open>null\<close>.\<close>

definition has_kind :: "input_kind \<Rightarrow> jsval \<Rightarrow> bool" where
  "has_kind k v =
     (case k of
        OptionalPath \<Rightarrow> (case v of JNull \<Rightarrow> True | JStr p \<Rightarrow> True | _ \<Rightarrow> False)
      | ProjectPath \<Rightarrow> (case v of JStr p \<Rightarrow> p \<noteq> [] | _ \<Rightarrow> False)
      | SourceText \<Rightarrow> (case v of JStr t \<Rightarrow> True | _ \<Rightarrow> False)
      | TaskName \<Rightarrow> (case v of JStr t \<Rightarrow> True | _ \<Rightarrow> False)
      | ArgumentList \<Rightarrow> (case v of JArr xs \<Rightarrow> True | _ \<Rightarrow> False))"

definition matches_row :: "string \<times> jsobj \<Rightarrow> bridge_row \<Rightarrow> bool" where
  "matches_row call row =
     (fst call = fst (snd row) \<and>
      list_all2 (\<lambda>kv inp. fst kv = fst inp \<and> has_kind (snd inp) (snd kv))
        (snd call) (snd (snd row)))"

definition listed :: "string \<times> jsobj \<Rightarrow> bool" where
  "listed call = list_ex (matches_row call) bridge_table"

text \<open>The endpoints of the provider calls among the effects, in order.\<close>

fun rpc_endpoints :: "effect list \<Rightarrow> string list" where
  "rpc_endpoints [] = []"
| "rpc_endpoints (Rpc u m # es) = u # rpc_endpoints es"
| "rpc_endpoints (e # es) = rpc_endpoints es"

text \<open>The interval operations among the effects, in order.\<close>

fun interval_ops :: "effect list \<Rightarrow> effect list" where
  "interval_ops [] = []"
| "interval_ops (SetInterval i cb ms # es) = SetInterval i cb ms # interval_ops es"
| "interval_ops (ClearInterval i # es) = ClearInterval i # interval_ops es"
| "interval_ops (e # es) = interval_ops es"

text \<open>
  The argument list of the verification task in the words of its description: the
  address first, the constructor arguments split on commas, each piece trimmed, empty
  pieces discarded, and the flag only when a piece remains.
\<close>

definition verify_args_spec :: "verify_form \<Rightarrow> string list" where
  "verify_args_spec f =
     (let pieces = filter (\<lambda>piece. piece \<noteq> [])
                     (map js_trim (js_split (CHR '','') (constructorArgs f)))
      in contractAddress f #
         (if contractName f = [] then [] else [''--contract'', contractName f]) @
         (if pieces = [] then [] else ''--constructor-args'' # pieces))"

text \<open>The commands that act on the tracked project.\<close>

definition project_commands :: "string list" where
  "project_commands =
     [''compile_contracts'', ''run_tests'', ''deploy_contracts'', ''run_hardhat_task'',
      ''run_hardhat_console_command'']"

text \<open>The state of the first render: the initial value of every \<^verbatim>\<open>useState\<close>.\<close>

definition initial_app :: "bool \<Rightarrow> app" where
  "initial_app tauri =
     \<lparr>isTauri = tauri, tauri_invoke = False, tauri_open = False, accounts = [], loading = True,
      error = None, networkInfo = None, hardhatStatus = None, selectedProjectPath = [],
      currentProjectPath = [], isManaging = False, managementMessage = [], contracts = [],
      compilationStatus = None, testResults = None, deploymentStatus = None,
      consoleOutput = [], consoleInput = [], autoRefresh = False, refreshInterval = None,
      isLoadingContracts = False, verifyModalOpened = False,
      verifyForm = \<lparr>contractAddress = [], constructorArgs = [], contractName = []\<rparr>\<rparr>"

text \<open>
  A desktop session with the APIs loaded, the project \<^verbatim>\<open>/tmp/proj\<close> tracked, a console
  line typed and the verification form filled in; and replies of a backend and a network.
\<close>

definition desktop_app :: app where
  "desktop_app =
     (initial_app True)
       \<lparr>tauri_invoke := True, tauri_open := True, selectedProjectPath := ''/tmp/proj'',
        currentProjectPath := ''/tmp/proj'', consoleInput := '' 1 + 1 '',
        verifyForm := \<lparr>contractAddress = ''0xabc'', constructorArgs = ''7, ,owner'',
                       contractName = []\<rparr>\<rparr>"

definition example_status :: ToolchainStatus where
  "example_status =
     \<lparr>installed = True, version = Some ''2.22.0'', project_detected = True,
      project_path = Some ''/tmp/proj'', network_running = True\<rparr>"

definition empty_path_status :: ToolchainStatus where
  "empty_path_status =
     \<lparr>installed = True, version = Some ''2.22.0'', project_detected = True,
      project_path = Some [], network_running = False\<rparr>"

definition example_rpc :: rpc_replies where
  "example_rpc =
     \<lparr>getNetwork = Inr (''hardhat'', 31337), getBlockNumber = Inr 0,
      listAccounts = Inr [Signer ''0xf39Fd6e51aad88F6F4ce6aB8827279cffFb92266''],
      getBalance = (\<lambda>a. Inr 10000)\<rparr>"

definition example_replies :: replies where
  "example_replies =
     \<lparr>status_reply = Inr (Some example_status), text_reply = Inr ''done'',
      contracts_reply = Inr [], dialog_reply = Inr (Some ''/tmp/proj''), rpc = example_rpc,
      import_ok = True, timer_id = 7\<rparr>"

text \<open>
  A desktop session with the APIs loaded and no project yet; the status of a directory
  that holds no project; and the replies when the directory \<^verbatim>\<open>/other\<close> is picked and
  turns out to hold none.
\<close>

definition loaded_app :: app where
  "loaded_app = (initial_app True)\<lparr>tauri_invoke := True, tauri_open := True\<rparr>"

definition no_project_status :: ToolchainStatus where
  "no_project_status =
     \<lparr>installed = True, version = Some ''2.22.0'', project_detected = False,
      project_path = None, network_running = True\<rparr>"

definition other_directory_replies :: replies where
  "other_directory_replies =
     example_replies\<lparr>status_reply := Inr (Some no_project_status),
                      dialog_reply := Inr (Some ''/other'')\<rparr>"

text \<open>
  A sequence of events, each dispatched in the render that the events before it have
  produced: the state it ends in, and the bridge calls it makes.
\<close>

fun run :: "(event \<times> replies) list \<Rightarrow> app \<Rightarrow> app" where
  "run [] s = s"
| "run ((ev, r) # rest) s = run rest (fst (dispatch ev r s s))"

fun run_calls :: "(event \<times> replies) list \<Rightarrow> app \<Rightarrow> (string \<times> jsobj) list" where
  "run_calls [] s = []"
| "run_calls ((ev, r) # rest) s =
     invocations (snd (dispatch ev r s s)) @ run_calls rest (fst (dispatch ev r s s))"

text \<open>
  An entry with the field names \<^verbatim>\<open>source_path\<close> and \<^verbatim>\<open>size_bytes\<close>, and the same
  entry with \<^verbatim>\<open>path\<close> and \<^verbatim>\<open>size\<close>.
\<close>

definition entry_source_path :: jsobj where
  "entry_source_path =
     [(''name'', JStr ''Token''), (''source_path'', JStr ''/tmp/proj/contracts/Token.sol''),
      (''compiled'', JBool True), (''size_bytes'', JNum 2048)]"

definition entry_path :: jsobj where
  "entry_path =
     [(''name'', JStr ''Token''), (''path'', JStr ''/tmp/proj/contracts/Token.sol''),
      (''compiled'', JBool True), (''size'', JNum 2048)]"

section \<open>The orchestration core\<close>

text \<open>
  The backend behind \<^verbatim>\<open>invoke\<close> is not among the sources. The parts of it that the
  specification describes and that are needed below are written out from the
  specification's sections 3, 4.1, 4.2 and 6.
\<close>

text \<open>
  Modelled from the spec: the filesystem and network state an Environment Probe reads.
  \<open>version_query\<close> is the outcome of running the toolchain binary with a version-query
  argument: \<open>None\<close> when the binary is absent, exits non-zero or times out.
\<close>

record environment =
  version_query :: "string option"
  existing_files :: "string list"
  reachable :: "string list"
  default_path :: string

text \<open>
  Modelled from the spec: \<^verbatim>\<open>probe_installation() -> { installed, version }\<close>; absence of
  the binary or a failed query yields \<^verbatim>\<open>installed=false\<close>, never an error.
\<close>

definition probe_installation :: "environment \<Rightarrow> bool \<times> string option" where
  "probe_installation env =
     (case version_query env of None \<Rightarrow> (False, None) | Some v \<Rightarrow> (True, Some v))"

text \<open>
  Modelled from the spec: the two recognized configuration filenames, in the order they
  are checked. Their names are those of the panel's own description of project detection.
\<close>

definition config_filenames :: "string list" where
  "config_filenames = [''hardhat.config.js'', ''hardhat.config.ts'']"

text \<open>Modelled from the spec: the first recognized configuration file present at a path.\<close>

definition find_config :: "environment \<Rightarrow> string \<Rightarrow> string option" where
  "find_config env root =
     find (\<lambda>name. root @ ''/'' @ name \<in> set (existing_files env)) config_filenames"

text \<open>Modelled from the spec: the result \<^verbatim>\<open>{ detected, resolved_path }\<close> of the project probe.\<close>

record project_probe =
  detected :: bool
  resolved_path :: "string option"

text \<open>
  Modelled from the spec: \<^verbatim>\<open>probe_project(path) -> { detected, resolved_path }\<close> checks,
  in order, for either of the two filenames at the given path, or at a default path if
  none is given; first match wins; no match yields \<^verbatim>\<open>detected=false\<close>.
\<close>

definition probe_project :: "environment \<Rightarrow> string option \<Rightarrow> project_probe" where
  "probe_project env path =
     (let root = (case path of None \<Rightarrow> default_path env | Some p \<Rightarrow> p)
      in case find_config env root of
           None \<Rightarrow> \<lparr>detected = False, resolved_path = None\<rparr>
         | Some name \<Rightarrow> \<lparr>detected = True, resolved_path = Some root\<rparr>)"

text \<open>
  Modelled from the spec: \<^verbatim>\<open>probe_network(endpoint) -> { reachable }\<close>; refusal or
  timeout yields \<^verbatim>\<open>reachable=false\<close>, never an error.
\<close>

definition probe_network :: "environment \<Rightarrow> string \<Rightarrow> bool" where
  "probe_network env endpoint = (endpoint \<in> set (reachable env))"

text \<open>Modelled from the spec: the fixed localhost/port pair the RPC endpoint defaults to.\<close>

definition rpc_endpoint :: string where
  "rpc_endpoint = ''http://localhost:8545''"

text \<open>Modelled from the spec: the states of the state machine kept per project path.\<close>

datatype proc_state = Starting | Running | Stopping | Stopped | Crashed

text \<open>Modelled from the spec: the error taxonomy of its section 7.\<close>

datatype ErrorKind =
    NotInstalled | ProjectNotFound | AlreadyRunning | SpawnFailed | Timeout | NonZeroExit
  | IoFailure | InvalidRequest

text \<open>Modelled from the spec: the ManagedProcess record of its section 3.\<close>

record ManagedProcess =
  mp_project_path :: string
  pid :: nat
  started_at :: nat
  output_buffer :: "string list"
  mp_state :: proc_state

text \<open>
  Modelled from the spec: the registry of the Process Lifecycle Manager, at most one
  ManagedProcess per project path. \<open>spawned\<close> logs every child process the manager has
  spawned, with its project path.
\<close>

record lifecycle =
  managed :: "string \<rightharpoonup> ManagedProcess"
  spawned :: "(string \<times> nat) list"

text \<open>Modelled from the spec: the manager before any request, with no process tracked.\<close>

definition idle :: lifecycle where
  "idle = \<lparr>managed = Map.empty, spawned = []\<rparr>"

text \<open>Modelled from the spec: the states in which a tracked process counts as live.\<close>

definition is_active :: "proc_state \<Rightarrow> bool" where
  "is_active st = (st = Starting \<or> st = Running)"

text \<open>
  Modelled from the spec: the spawning branch of \<^verbatim>\<open>start\<close>. \<open>spawn\<close> is what the
  operating system answers: the new process id, or \<open>None\<close> on a spawn failure (binary
  missing, port already bound), which is reported at once and leaves the state as it was.
\<close>

definition spawn_process ::
  "nat option \<Rightarrow> nat \<Rightarrow> string \<Rightarrow> lifecycle \<Rightarrow> (ErrorKind + proc_state) \<times> lifecycle" where
  "spawn_process spawn now p lm =
     (case spawn of
        None \<Rightarrow> (Inl SpawnFailed, lm)
      | Some new_pid \<Rightarrow>
          (Inr Starting,
           lm\<lparr>managed := (managed lm)(p \<mapsto>
                  \<lparr>mp_project_path = p, pid = new_pid, started_at = now, output_buffer = [],
                   mp_state = Starting\<rparr>),
              spawned := spawned lm @ [(p, new_pid)]\<rparr>))"

text \<open>
  Modelled from the spec: \<^verbatim>\<open>start(project_path)\<close>: if a ManagedProcess already exists
  for this path in Starting/Running, returns the existing state without spawning a second
  process; otherwise spawns the long-running command, records pid and start time and
  transitions to Starting.
\<close>

definition start ::
  "nat option \<Rightarrow> nat \<Rightarrow> string \<Rightarrow> lifecycle \<Rightarrow> (ErrorKind + proc_state) \<times> lifecycle" where
  "start spawn now p lm =
     (case managed lm p of
        None \<Rightarrow> spawn_process spawn now p lm
      | Some mp \<Rightarrow>
          if is_active (mp_state mp) then (Inr (mp_state mp), lm)
          else spawn_process spawn now p lm)"

text \<open>
  Modelled from the spec: \<^verbatim>\<open>stop(project_path)\<close>: no-op if no process is tracked;
  otherwise terminates it, transitions to Stopped and discards the record.
\<close>

definition stop :: "string \<Rightarrow> lifecycle \<Rightarrow> proc_state \<times> lifecycle" where
  "stop p lm =
     (case managed lm p of
        None \<Rightarrow> (Stopped, lm)
      | Some mp \<Rightarrow> (Stopped, lm\<lparr>managed := (managed lm)(p := None)\<rparr>))"

text \<open>Modelled from the spec: the number of live processes tracked for a path.\<close>

definition live_count :: "string \<Rightarrow> lifecycle \<Rightarrow> nat" where
  "live_count p lm =
     (case managed lm p of
        None \<Rightarrow> 0
      | Some mp \<Rightarrow> if is_active (mp_state mp) then 1 else 0)"

text \<open>Modelled from the spec: the number of processes ever spawned for a path.\<close>

definition spawn_count :: "string \<Rightarrow> lifecycle \<Rightarrow> nat" where
  "spawn_count p lm = length (filter (\<lambda>entry. fst entry = p) (spawned lm))"

text \<open>
  Modelled from the spec: \<^verbatim>\<open>check_status\<close> of the Command Bridge. The three sub-probes
  are combined into one ToolchainStatus; the Lifecycle Manager's state is passed through
  untouched, and nothing of the status is kept.
\<close>

definition check_status ::
  "environment \<Rightarrow> string option \<Rightarrow> lifecycle \<Rightarrow> ToolchainStatus \<times> lifecycle" where
  "check_status env path lm =
     (\<lparr>installed = fst (probe_installation env),
       version = snd (probe_installation env),
       project_detected = detected (probe_project env path),
       project_path = resolved_path (probe_project env path),
       network_running = probe_network env rpc_endpoint\<rparr>, lm)"

text \<open>
  Modelled from the spec: the requests of the bridge that reach the probes and the
  Lifecycle Manager. A start request carries what the operating system will answer and
  the time.
\<close>

datatype request =
    CheckStatus "string option"
  | StartNetwork string "nat option" nat
  | StopNetwork string

text \<open>Modelled from the spec: the state of the core after one request.\<close>

fun handle :: "environment \<Rightarrow> request \<Rightarrow> lifecycle \<Rightarrow> lifecycle" where
  "handle env (CheckStatus path) lm = snd (check_status env path lm)"
| "handle env (StartNetwork p spawn now) lm = snd (start spawn now p lm)"
| "handle env (StopNetwork p) lm = snd (stop p lm)"

text \<open>
  Modelled from the spec: the state of the core after a sequence of requests, each with
  the environment it meets.
\<close>

fun handle_all :: "(environment \<times> request) list \<Rightarrow> lifecycle \<Rightarrow> lifecycle" where
  "handle_all [] lm = lm"
| "handle_all ((env, req) # rest) lm = handle_all rest (handle env req lm)"

text \<open>
  Modelled from the spec: the environment of its scenario before a project is created at
  \<^verbatim>\<open>/tmp/proj\<close>, with nothing listening.
\<close>

definition bare_env :: environment where
  "bare_env =
     \<lparr>version_query = Some ''2.22.0'', existing_files = [], reachable = [],
      default_path = ''/home/dev''\<rparr>"

text \<open>
  Modelled from the spec: the environment of the same scenario after the project was
  created and its network started.
\<close>

definition project_env :: environment where
  "project_env =
     \<lparr>version_query = Some ''2.22.0'',
      existing_files = [''/tmp/proj/hardhat.config.ts'', ''/tmp/proj/package.json''],
      reachable = [''http://localhost:8545''], default_path = ''/home/dev''\<rparr>"

section \<open>Facts about the effects of the handlers\<close>

subsection \<open>Observations of a list of effects\<close>

lemma invocations_append: "invocations (xs @ ys) = invocations xs @ invocations ys"
  by (induction xs rule: invocations.induct) simp_all

lemma rpc_endpoints_append: "rpc_endpoints (xs @ ys) = rpc_endpoints xs @ rpc_endpoints ys"
  by (induction xs rule: rpc_endpoints.induct) simp_all

lemma interval_ops_append: "interval_ops (xs @ ys) = interval_ops xs @ interval_ops ys"
  by (induction xs rule: interval_ops.induct) simp_all

lemma rpc_map: "rpc_endpoints (map (\<lambda>a. Rpc u (f a)) xs) = map (\<lambda>a. u) xs"
  by (induction xs) simp_all

lemma invocations_rpc_map: "invocations (map (\<lambda>a. Rpc u (f a)) xs) = []"
  by (induction xs) simp_all

lemma interval_ops_rpc_map: "interval_ops (map (\<lambda>a. Rpc u (f a)) xs) = []"
  by (induction xs) simp_all

subsection \<open>The two shared helpers\<close>

lemma invocations_checkHardhatStatus:
  "invocations (snd (snd (checkHardhatStatus c pp reply s))) =
     (if isTauri c \<and> tauri_invoke c then [(''check_hardhat_status'', [(''projectPath'', of_path pp)])]
      else [])"
  by (simp add: checkHardhatStatus_def Let_def split: sum.splits option.splits)

lemma interval_ops_checkHardhatStatus:
  "interval_ops (snd (snd (checkHardhatStatus c pp reply s))) = []"
  by (simp add: checkHardhatStatus_def Let_def split: sum.splits option.splits)

lemma rpc_endpoints_checkHardhatStatus:
  "rpc_endpoints (snd (snd (checkHardhatStatus c pp reply s))) = []"
  by (simp add: checkHardhatStatus_def Let_def split: sum.splits option.splits)

lemma invocations_loadBlockchainData: "invocations (snd (loadBlockchainData r s)) = []"
  by (simp add: loadBlockchainData_def Let_def invocations_append invocations_rpc_map
           split: sum.splits prod.splits)

lemma invocations_App_loadBlockchainData:
  "invocations (snd (App_loadBlockchainData r s)) = []"
  by (simp add: App_loadBlockchainData_def Let_def invocations_append invocations_rpc_map
           split: sum.splits prod.splits)

lemma interval_ops_loadBlockchainData: "interval_ops (snd (loadBlockchainData r s)) = []"
  by (simp add: loadBlockchainData_def Let_def interval_ops_append interval_ops_rpc_map
           split: sum.splits prod.splits)

lemma interval_ops_App_loadBlockchainData: "interval_ops (snd (App_loadBlockchainData r s)) = []"
  by (simp add: App_loadBlockchainData_def Let_def interval_ops_append interval_ops_rpc_map
           split: sum.splits prod.splits)

lemma rpc_loadBlockchainData:
  "set (rpc_endpoints (snd (loadBlockchainData r s))) = {''http://localhost:8545''}"
  by (auto simp add: loadBlockchainData_def Let_def rpc_endpoints_append rpc_map
           split: sum.splits prod.splits)

lemma rpc_App_loadBlockchainData:
  "set (rpc_endpoints (snd (App_loadBlockchainData r s))) = {''http://localhost:8545''}"
  by (auto simp add: App_loadBlockchainData_def Let_def rpc_endpoints_append rpc_map
           split: sum.splits prod.splits)

subsection \<open>The bridge calls of each handler\<close>

lemma inv_install:
  "invocations (snd (handleInstallHardhat c reply s)) =
     (if isTauri c \<and> tauri_invoke c then [(''install_hardhat'', [])] else [])"
  by (simp add: handleInstallHardhat_def Let_def split: sum.splits)

lemma inv_select:
  "invocations (snd (handleSelectProject c dialog reply s)) =
     (case dialog of
        Inr (Some p) \<Rightarrow>
          if isTauri c \<and> tauri_open c \<and> tauri_invoke c \<and> p \<noteq> [] then
            [(''check_hardhat_status'', [(''projectPath'', JStr p)])]
          else []
      | _ \<Rightarrow> [])"
  using invocations_checkHardhatStatus [of c]
  by (auto simp add: handleSelectProject_def case_prod_beta split: sum.splits option.splits)

lemma inv_create:
  "invocations (snd (handleCreateProject c reply s)) =
     (if isTauri c \<and> tauri_invoke c \<and> selectedProjectPath c \<noteq> [] then
        [(''create_hardhat_project'', [(''projectPath'', JStr (selectedProjectPath c))])]
      else [])"
  by (simp add: handleCreateProject_def Let_def split: sum.splits)

lemma inv_start:
  "invocations (snd (handleStartNetwork c reply s)) =
     (case or_else (Some (currentProjectPath c)) (status_path (hardhatStatus c)) of
        Some p \<Rightarrow>
          if isTauri c \<and> tauri_invoke c \<and> p \<noteq> [] then
            [(''start_hardhat_network'', [(''projectPath'', JStr p)])]
          else []
      | None \<Rightarrow> [])"
  by (simp add: handleStartNetwork_def Let_def split: sum.splits option.splits)

lemma inv_refresh:
  "invocations (snd (handleRefresh c reply r s)) =
     (if isTauri c \<and> tauri_invoke c then
        [(''check_hardhat_status'',
          [(''projectPath'',
            of_path (or_else (Some (currentProjectPath c))
                       (or_else (status_path (hardhatStatus c))
                          (or_else (Some (selectedProjectPath c)) None))))])]
      else [])"
  using invocations_checkHardhatStatus [of c] invocations_loadBlockchainData
  by (simp add: handleRefresh_def Let_def invocations_append case_prod_beta)

lemma inv_toggle: "invocations (snd (toggleAutoRefresh c i s)) = []"
  by (simp add: toggleAutoRefresh_def split: option.splits)

lemma inv_loadContracts:
  "invocations (snd (loadContracts c reply s)) =
     (if currentProjectPath c \<noteq> [] \<and> isTauri c \<and> tauri_invoke c then
        [(''list_contracts'', [(''projectPath'', JStr (currentProjectPath c))])]
      else [])"
  by (simp add: loadContracts_def Let_def split: sum.splits)

lemma inv_compile:
  "invocations (snd (handleCompileContracts c reply listing s)) =
     (if currentProjectPath c \<noteq> [] \<and> isTauri c \<and> tauri_invoke c then
        (''compile_contracts'', [(''projectPath'', JStr (currentProjectPath c))]) #
        (case reply of
           Inr result \<Rightarrow> [(''list_contracts'', [(''projectPath'', JStr (currentProjectPath c))])]
         | Inl err \<Rightarrow> [])
      else [])"
  using inv_loadContracts [of c]
  by (simp add: handleCompileContracts_def Let_def invocations_append
           case_prod_beta split: sum.splits)

lemma inv_tests:
  "invocations (snd (handleRunTests c reply s)) =
     (if currentProjectPath c \<noteq> [] \<and> isTauri c \<and> tauri_invoke c then
        [(''run_tests'', [(''projectPath'', JStr (currentProjectPath c))])]
      else [])"
  by (simp add: handleRunTests_def Let_def split: sum.splits)

lemma inv_deploy:
  "invocations (snd (handleDeployContracts c reply s)) =
     (if currentProjectPath c \<noteq> [] \<and> isTauri c \<and> tauri_invoke c then
        [(''deploy_contracts'', [(''projectPath'', JStr (currentProjectPath c))])]
      else [])"
  by (simp add: handleDeployContracts_def Let_def split: sum.splits)

lemma inv_console:
  "invocations (snd (handleConsoleCommand c reply s)) =
     (if js_trim (consoleInput c) \<noteq> [] \<and> currentProjectPath c \<noteq> [] \<and> isTauri c
         \<and> tauri_invoke c then
        [(''run_hardhat_console_command'',
          [(''projectPath'', JStr (currentProjectPath c)),
           (''command'', JStr (js_trim (consoleInput c)))])]
      else [])"
  by (simp add: handleConsoleCommand_def Let_def split: sum.splits)

lemma inv_task:
  "invocations (snd (handleHardhatTask c taskName reply s)) =
     (if currentProjectPath c \<noteq> [] \<and> isTauri c \<and> tauri_invoke c \<and> taskName \<noteq> ''verify'' then
        [(''run_hardhat_task'',
          [(''projectPath'', JStr (currentProjectPath c)), (''task'', JStr taskName),
           (''args'', JArr [])])]
      else [])"
  by (simp add: handleHardhatTask_def Let_def split: sum.splits)

lemma inv_verify:
  "invocations (snd (handleVerifyContract c reply s)) =
     (if currentProjectPath c \<noteq> [] \<and> tauri_invoke c \<and> contractAddress (verifyForm c) \<noteq> [] then
        [(''run_hardhat_task'',
          [(''projectPath'', JStr (currentProjectPath c)), (''task'', JStr ''verify''),
           (''args'', JArr (verify_args (verifyForm c)))])]
      else [])"
  by (simp add: handleVerifyContract_def Let_def split: sum.splits)

lemma inv_loadApis: "invocations (snd (loadTauriApis c ok s)) = []"
  by (simp add: loadTauriApis_def)

lemma inv_initialize:
  "invocations (snd (initializeEffect c reply r s)) =
     (if isTauri c \<and> tauri_invoke c then [(''check_hardhat_status'', [(''projectPath'', JNull)])]
      else [])"
  using invocations_checkHardhatStatus [of c None] invocations_loadBlockchainData
  by (simp add: initializeEffect_def initializeApp_def invocations_append case_prod_beta)

lemma inv_contractsEffect:
  "invocations (snd (contractsEffect c reply s)) =
     (if currentProjectPath c \<noteq> [] \<and> isTauri c \<and> tauri_invoke c then
        [(''list_contracts'', [(''projectPath'', JStr (currentProjectPath c))])]
      else [])"
  by (simp add: contractsEffect_def inv_loadContracts)

lemma inv_cleanup: "invocations (snd (intervalCleanup c s)) = []"
  by (simp add: intervalCleanup_def split: option.splits)

lemma inv_callback:
  "invocations (snd (runCallback c cb r s)) =
     (if isTauri c \<and> tauri_invoke c then
        (case cb of
           CheckStatusLater p \<Rightarrow> [(''check_hardhat_status'', [(''projectPath'', of_path p)])]
         | AfterNetworkStart p \<Rightarrow> [(''check_hardhat_status'', [(''projectPath'', JStr p)])]
         | Refresh \<Rightarrow>
             [(''check_hardhat_status'',
               [(''projectPath'',
                 of_path (or_else (Some (currentProjectPath c))
                            (or_else (status_path (hardhatStatus c))
                               (or_else (Some (selectedProjectPath c)) None))))])]
         | ResolveDelay \<Rightarrow> [])
      else [])"
  using invocations_checkHardhatStatus [of c] invocations_loadBlockchainData
  by (auto simp add: runCallback_def inv_refresh invocations_append case_prod_beta split: callback.splits)

subsection \<open>Calls that the table lists\<close>

lemma listed_check: "listed (''check_hardhat_status'', [(''projectPath'', of_path pp)])"
  by (cases pp) (simp_all add: listed_def matches_row_def bridge_table_def has_kind_def)

lemma listed_check_values:
  "listed (''check_hardhat_status'', [(''projectPath'', JNull)])"
  "listed (''check_hardhat_status'', [(''projectPath'', JStr p)])"
  using listed_check [of None] listed_check [of "Some p"] by simp_all

lemma listed_install: "listed (''install_hardhat'', [])"
  by (simp add: listed_def matches_row_def bridge_table_def)

lemma listed_project_call:
  assumes "p \<noteq> []"
  shows "listed (''create_hardhat_project'', [(''projectPath'', JStr p)])"
    and "listed (''start_hardhat_network'', [(''projectPath'', JStr p)])"
    and "listed (''list_contracts'', [(''projectPath'', JStr p)])"
    and "listed (''compile_contracts'', [(''projectPath'', JStr p)])"
    and "listed (''run_tests'', [(''projectPath'', JStr p)])"
    and "listed (''deploy_contracts'', [(''projectPath'', JStr p)])"
    and "listed (''run_hardhat_console_command'', [(''projectPath'', JStr p), (''command'', JStr t)])"
    and "listed (''run_hardhat_task'', [(''projectPath'', JStr p), (''task'', JStr t), (''args'', JArr xs)])"
  using assms by (simp_all add: listed_def matches_row_def bridge_table_def has_kind_def)

lemma listed_dispatch: "list_all listed (invocations (snd (dispatch ev r c s)))"
proof (cases ev)
  case ClickSelectProject
  then show ?thesis
    by (simp add: dispatch_def inv_select listed_check [of "Some p" for p, simplified]
             split: sum.splits option.splits)
next
  case ClickStartNetwork
  then show ?thesis
    by (simp add: dispatch_def inv_start listed_project_call split: option.splits)
next
  case ClickCompile
  then show ?thesis
    by (simp add: dispatch_def inv_compile listed_project_call split: sum.splits)
next
  case (TimerFired cb)
  then show ?thesis
    using listed_check [of "Some p" for p]
    by (simp add: dispatch_def inv_callback listed_check split: callback.splits)
qed (simp_all add: dispatch_def inv_install inv_create inv_refresh inv_toggle inv_tests
       inv_deploy inv_console inv_task inv_verify inv_loadApis inv_initialize
       inv_contractsEffect inv_cleanup listed_check listed_install listed_project_call
       listed_check [of None, simplified])

subsection \<open>The verification task and the project commands\<close>

lemma js_trim_Nil: "js_trim [] = []"
  by (simp add: js_trim_def)

lemma verify_args_eq_spec: "verify_args f = verify_args_spec f"
  by (simp add: verify_args_def verify_args_spec_def Let_def js_trim_Nil)

lemma verify_args_spec_no_empty:
  "contractAddress f \<noteq> [] \<Longrightarrow> [] \<notin> set (verify_args_spec f)"
  by (auto simp add: verify_args_spec_def Let_def)

lemma task_call_dispatch:
  assumes "(''run_hardhat_task'', payload) \<in> set (invocations (snd (dispatch ev r c s)))"
  shows "(\<exists>t. ev = ClickTask t \<and> t \<noteq> ''verify'' \<and> js_get payload ''task'' = JStr t) \<or>
         (ev = SubmitVerify \<and> contractAddress (verifyForm c) \<noteq> [] \<and>
          js_get payload ''args'' = JArr (verify_args (verifyForm c)))"
  using assms
proof (cases ev)
  case ClickSelectProject
  with assms show ?thesis
    by (simp add: dispatch_def inv_select split: sum.splits option.splits if_splits)
next
  case ClickStartNetwork
  with assms show ?thesis
    by (simp add: dispatch_def inv_start split: option.splits if_splits)
next
  case ClickCompile
  with assms show ?thesis
    by (simp add: dispatch_def inv_compile split: sum.splits if_splits)
next
  case (TimerFired cb)
  with assms show ?thesis
    by (simp add: dispatch_def inv_callback split: callback.splits if_splits)
next
  case (ClickTask t)
  with assms show ?thesis
    by (simp add: dispatch_def inv_task js_get_def split: if_splits)
next
  case SubmitVerify
  with assms show ?thesis
    by (simp add: dispatch_def inv_verify js_get_def split: if_splits)
qed (simp_all add: dispatch_def inv_install inv_create inv_refresh inv_toggle inv_tests
       inv_deploy inv_console inv_loadApis inv_initialize
       inv_contractsEffect inv_cleanup split: if_splits)

lemma project_call_dispatch:
  "list_all (\<lambda>call. fst call \<in> set project_commands \<longrightarrow>
               js_get (snd call) ''projectPath'' = JStr (currentProjectPath c))
     (invocations (snd (dispatch ev r c s)))"
proof (cases ev)
  case ClickSelectProject
  then show ?thesis
    by (simp add: dispatch_def inv_select project_commands_def split: sum.splits option.splits)
next
  case ClickStartNetwork
  then show ?thesis
    by (simp add: dispatch_def inv_start project_commands_def split: option.splits)
next
  case ClickCompile
  then show ?thesis
    by (simp add: dispatch_def inv_compile project_commands_def js_get_def split: sum.splits)
next
  case (TimerFired cb)
  then show ?thesis
    by (simp add: dispatch_def inv_callback project_commands_def split: callback.splits)
qed (simp_all add: dispatch_def inv_install inv_create inv_refresh inv_toggle inv_tests
       inv_deploy inv_console inv_task inv_verify inv_loadApis inv_initialize
       inv_contractsEffect inv_cleanup project_commands_def js_get_def)

subsection \<open>Intervals and provider calls\<close>

lemmas handler_defs =
  handleInstallHardhat_def handleSelectProject_def handleCreateProject_def
  handleStartNetwork_def handleRefresh_def toggleAutoRefresh_def loadContracts_def
  handleCompileContracts_def handleRunTests_def handleDeployContracts_def
  handleConsoleCommand_def handleHardhatTask_def handleVerifyContract_def
  loadTauriApis_def initializeApp_def initializeEffect_def contractsEffect_def
  intervalCleanup_def runCallback_def

lemma interval_ops_dispatch:
  "interval_ops (snd (dispatch ev r c s)) =
     (if ev = ClickAutoRefresh \<and> \<not> autoRefresh c then [SetInterval (timer_id r) Refresh 10000]
      else if ev = ClickAutoRefresh \<or> ev = EffectCleanup then
        (case refreshInterval c of
           None \<Rightarrow> []
         | Some i \<Rightarrow> if i \<noteq> 0 then [ClearInterval i] else [])
      else [])"
  by (cases ev)
     (simp_all add: dispatch_def handler_defs Let_def case_prod_beta interval_ops_append
        interval_ops_checkHardhatStatus interval_ops_loadBlockchainData
        split: sum.splits option.splits callback.splits)

lemma rpc_endpoints_dispatch:
  "set (rpc_endpoints (snd (dispatch ev r c s))) \<subseteq> {''http://localhost:8545''}"
  using rpc_loadBlockchainData
  by (cases ev)
     (simp_all add: dispatch_def handler_defs Let_def case_prod_beta rpc_endpoints_append
        rpc_endpoints_checkHardhatStatus
        split: sum.splits option.splits callback.splits)

subsection \<open>The tracked path between status calls\<close>

lemma cur_checkHardhatStatus:
  "currentProjectPath (fst (snd (checkHardhatStatus c pp reply s))) = currentProjectPath s \<or>
   (isTauri c \<and> tauri_invoke c)"
  by (simp add: checkHardhatStatus_def Let_def split: sum.splits option.splits)

lemma cur_loadBlockchainData:
  "currentProjectPath (fst (loadBlockchainData r s)) = currentProjectPath s"
  by (simp add: loadBlockchainData_def Let_def split: sum.splits prod.splits)

lemma tracked_path_kept:
  "list_ex (\<lambda>call. fst call = ''check_hardhat_status'') (invocations (snd (dispatch ev r c s))) \<or>
   currentProjectPath (fst (dispatch ev r c s)) = currentProjectPath s"
proof (cases "isTauri c \<and> tauri_invoke c")
  case False
  then have chk: "currentProjectPath (fst (snd (checkHardhatStatus c pp reply t))) =
                    currentProjectPath t" for pp reply t
    using cur_checkHardhatStatus [of c pp reply t] by blast
  show ?thesis
    by (cases ev)
       (simp_all add: dispatch_def handler_defs Let_def case_prod_beta chk cur_loadBlockchainData
          split: sum.splits option.splits callback.splits)
next
  case True
  show ?thesis
  proof (cases ev)
    case ClickSelectProject
    with True show ?thesis
      by (auto simp add: dispatch_def handleSelectProject_def case_prod_beta
                 invocations_checkHardhatStatus
               split: sum.splits option.splits)
  next
    case (TimerFired cb)
    show ?thesis
    proof (cases cb)
      case ResolveDelay
      with TimerFired show ?thesis by (simp add: dispatch_def runCallback_def)
    qed (simp_all add: TimerFired True dispatch_def inv_callback)
  qed (simp_all add: True dispatch_def inv_refresh inv_initialize handleInstallHardhat_def
         handleCreateProject_def handleStartNetwork_def toggleAutoRefresh_def
         loadContracts_def handleCompileContracts_def handleRunTests_def
         handleDeployContracts_def handleConsoleCommand_def handleHardhatTask_def
         handleVerifyContract_def loadTauriApis_def contractsEffect_def intervalCleanup_def
         Let_def case_prod_beta split: sum.splits option.splits)
qed

lemma run_tracked_path_kept:
  "list_ex (\<lambda>call. fst call = ''check_hardhat_status'') (run_calls evs s) \<or>
   currentProjectPath (run evs s) = currentProjectPath s"
proof (induction evs s rule: run.induct)
  case (1 s)
  show ?case by simp
next
  case (2 ev r rest s)
  from tracked_path_kept [of ev r s s] "2.IH" show ?case by auto
qed

lemma run_project_calls:
  "list_ex (\<lambda>call. fst call = ''check_hardhat_status'') (run_calls evs s) \<or>
   list_all (\<lambda>call. fst call \<in> set project_commands \<longrightarrow>
               js_get (snd call) ''projectPath'' = JStr (currentProjectPath s))
     (run_calls evs s)"
proof (induction evs s rule: run_calls.induct)
  case (1 s)
  show ?case by simp
next
  case (2 ev r rest s)
  from tracked_path_kept [of ev r s s] project_call_dispatch [of s ev r s] "2.IH"
  show ?case by auto
qed

subsection \<open>The first App component\<close>

lemmas App_handler_defs =
  App_handleInstallHardhat_def App_handleSelectProject_def App_handleCreateProject_def
  App_handleStartNetwork_def App_handleRefresh_def App_initializeApp_def App_runCallback_def

lemma invocations_App_checkHardhatStatus:
  "invocations (snd (snd (App_checkHardhatStatus pp reply s))) =
     [(''check_hardhat_status'', [(''projectPath'', of_path pp)])]"
  by (simp add: App_checkHardhatStatus_def Let_def split: sum.splits)

lemma interval_ops_App_checkHardhatStatus:
  "interval_ops (snd (snd (App_checkHardhatStatus pp reply s))) = []"
  by (simp add: App_checkHardhatStatus_def Let_def split: sum.splits)

lemma rpc_endpoints_App_checkHardhatStatus:
  "rpc_endpoints (snd (snd (App_checkHardhatStatus pp reply s))) = []"
  by (simp add: App_checkHardhatStatus_def Let_def split: sum.splits)

lemma listed_App_dispatch: "list_all listed (invocations (snd (App_dispatch ev r c s)))"
  by (cases ev)
     (simp_all add: App_dispatch_def App_handler_defs Let_def case_prod_beta invocations_append
        invocations_App_checkHardhatStatus invocations_App_loadBlockchainData
        listed_check listed_check_values listed_install listed_project_call
        split: sum.splits option.splits callback.splits)

lemma interval_ops_App_dispatch: "interval_ops (snd (App_dispatch ev r c s)) = []"
  by (cases ev)
     (simp_all add: App_dispatch_def App_handler_defs Let_def case_prod_beta interval_ops_append
        interval_ops_App_checkHardhatStatus interval_ops_App_loadBlockchainData
        split: sum.splits option.splits callback.splits)

lemma rpc_endpoints_App_dispatch:
  "set (rpc_endpoints (snd (App_dispatch ev r c s))) \<subseteq> {''http://localhost:8545''}"
  using rpc_App_loadBlockchainData
  by (cases ev)
     (simp_all add: App_dispatch_def App_handler_defs Let_def case_prod_beta rpc_endpoints_append
        rpc_endpoints_App_checkHardhatStatus
        split: sum.splits option.splits callback.splits)

subsection \<open>The example session\<close>

lemma desktop_fields:
  "isTauri desktop_app" "tauri_invoke desktop_app" "tauri_open desktop_app"
  "currentProjectPath desktop_app = ''/tmp/proj''"
  "selectedProjectPath desktop_app = ''/tmp/proj''"
  "hardhatStatus desktop_app = None"
  "consoleInput desktop_app = '' 1 + 1 ''"
  "autoRefresh desktop_app = False"
  "refreshInterval desktop_app = None"
  "verifyForm desktop_app =
     \<lparr>contractAddress = ''0xabc'', constructorArgs = ''7, ,owner'', contractName = []\<rparr>"
  by (simp_all add: desktop_app_def initial_app_def)

lemma example_reply_fields:
  "status_reply example_replies = Inr (Some example_status)"
  "text_reply example_replies = Inr ''done''"
  "contracts_reply example_replies = Inr []"
  "dialog_reply example_replies = Inr (Some ''/tmp/proj'')"
  "rpc example_replies = example_rpc"
  "timer_id example_replies = 7"
  by (simp_all add: example_replies_def)

lemma every_row_invoked:
  assumes "row \<in> set bridge_table"
  shows "\<exists>ev. list_ex (\<lambda>call. matches_row call row)
               (invocations (snd (dispatch ev example_replies desktop_app desktop_app)))"
proof -
  have 1: "list_ex (\<lambda>call. matches_row call (bridge_table ! 0))
             (invocations (snd (dispatch ClickRefresh example_replies desktop_app desktop_app)))"
    by (simp add: dispatch_def inv_refresh desktop_fields status_path_def bridge_table_def
          matches_row_def has_kind_def)
  have 2: "list_ex (\<lambda>call. matches_row call (bridge_table ! 1))
             (invocations (snd (dispatch ClickInstall example_replies desktop_app desktop_app)))"
    by (simp add: dispatch_def inv_install desktop_fields bridge_table_def matches_row_def)
  have 3: "list_ex (\<lambda>call. matches_row call (bridge_table ! 2))
             (invocations (snd (dispatch ClickCreateProject example_replies desktop_app desktop_app)))"
    by (simp add: dispatch_def inv_create desktop_fields bridge_table_def matches_row_def
          has_kind_def)
  have 4: "list_ex (\<lambda>call. matches_row call (bridge_table ! 3))
             (invocations (snd (dispatch ClickStartNetwork example_replies desktop_app desktop_app)))"
    by (simp add: dispatch_def inv_start desktop_fields bridge_table_def matches_row_def
          has_kind_def)
  have 5: "list_ex (\<lambda>call. matches_row call (bridge_table ! 4))
             (invocations (snd (dispatch EffectContracts example_replies desktop_app desktop_app)))"
    by (simp add: dispatch_def inv_contractsEffect desktop_fields bridge_table_def
          matches_row_def has_kind_def)
  have 6: "list_ex (\<lambda>call. matches_row call (bridge_table ! 5))
             (invocations (snd (dispatch ClickCompile example_replies desktop_app desktop_app)))"
    by (simp add: dispatch_def inv_compile desktop_fields bridge_table_def matches_row_def
          has_kind_def)
  have 7: "list_ex (\<lambda>call. matches_row call (bridge_table ! 6))
             (invocations (snd (dispatch ClickRunTests example_replies desktop_app desktop_app)))"
    by (simp add: dispatch_def inv_tests desktop_fields bridge_table_def matches_row_def
          has_kind_def)
  have 8: "list_ex (\<lambda>call. matches_row call (bridge_table ! 7))
             (invocations (snd (dispatch ClickDeploy example_replies desktop_app desktop_app)))"
    by (simp add: dispatch_def inv_deploy desktop_fields bridge_table_def matches_row_def
          has_kind_def)
  have 9: "list_ex (\<lambda>call. matches_row call (bridge_table ! 8))
             (invocations (snd (dispatch SubmitConsole example_replies desktop_app desktop_app)))"
    by (simp add: dispatch_def inv_console desktop_fields bridge_table_def matches_row_def
          has_kind_def js_trim_def is_js_space_def)
  have 10: "list_ex (\<lambda>call. matches_row call (bridge_table ! 9))
             (invocations (snd (dispatch (ClickTask ''clean'') example_replies desktop_app
                                  desktop_app)))"
    by (simp add: dispatch_def inv_task desktop_fields bridge_table_def matches_row_def
          has_kind_def)
  from assms have "row \<in> set (map (\<lambda>i. bridge_table ! i) [0, 1, 2, 3, 4, 5, 6, 7, 8, 9])"
    by (simp add: bridge_table_def)
  then consider "row = bridge_table ! 0" | "row = bridge_table ! 1" | "row = bridge_table ! 2"
    | "row = bridge_table ! 3" | "row = bridge_table ! 4" | "row = bridge_table ! 5"
    | "row = bridge_table ! 6" | "row = bridge_table ! 7" | "row = bridge_table ! 8"
    | "row = bridge_table ! 9"
    by auto
  then show ?thesis
    using 1 2 3 4 5 6 7 8 9 10 by cases blast+
qed

subsection \<open>The orchestration core\<close>

lemma find_config_cases:
  "find_config env root =
     (if root @ ''/hardhat.config.js'' \<in> set (existing_files env) then Some ''hardhat.config.js''
      else if root @ ''/hardhat.config.ts'' \<in> set (existing_files env)
        then Some ''hardhat.config.ts''
      else None)"
  by (simp add: find_config_def config_filenames_def)

lemma check_status_unfolded:
  "check_status env path lm =
     (\<lparr>installed = (version_query env \<noteq> None),
       version = version_query env,
       project_detected =
         (find_config env (case path of None \<Rightarrow> default_path env | Some p \<Rightarrow> p) \<noteq> None),
       project_path =
         (if find_config env (case path of None \<Rightarrow> default_path env | Some p \<Rightarrow> p) = None
          then None else Some (case path of None \<Rightarrow> default_path env | Some p \<Rightarrow> p)),
       network_running = (''http://localhost:8545'' \<in> set (reachable env))\<rparr>, lm)"
  by (simp add: check_status_def probe_installation_def probe_project_def probe_network_def
        rpc_endpoint_def Let_def split: option.splits)

lemma start_active:
  assumes "managed lm p = Some mp" and "is_active (mp_state mp)"
  shows "start spawn now p lm = (Inr (mp_state mp), lm)"
  using assms by (simp add: start_def)

lemma start_success_active:
  assumes "start spawn now p lm = (Inr st, lm1)"
  shows "\<exists>mp. managed lm1 p = Some mp \<and> mp_state mp = st \<and> is_active st"
  using assms
  by (auto simp add: start_def spawn_process_def is_active_def
           split: option.splits if_splits)

section \<open>The claims\<close>

subsection \<open>The bridge calls\<close>

text \<open>
  Claim C1. The request/response bridge has one call for each command of the table, ten
  in all, under ten different names, and the panel invokes each by name with the listed
  input: every bridge call that any handler or effect of either component makes, in any
  state and with any replies, is a row of the table with the payload keys and the kinds
  of values of that row (\<^verbatim>\<open>check_hardhat_status\<close> with a project path or
  \<^verbatim>\<open>null\<close>; \<^verbatim>\<open>install_hardhat\<close> with nothing; the project commands with a project
  path; \<^verbatim>\<open>run_hardhat_console_command\<close> with a path and the source text;
  \<^verbatim>\<open>run_hardhat_task\<close> with a path, a task name and an argument list), and every row
  is invoked by some event.
\<close>

theorem bridge_calls_match_table:
  "list_all listed (invocations (snd (dispatch ev r c s))) \<and>
   list_all listed (invocations (snd (App_dispatch ev' r' c' s'))) \<and>
   (\<forall>row \<in> set bridge_table.
      \<exists>ev r c s. list_ex (\<lambda>call. matches_row call row) (invocations (snd (dispatch ev r c s)))) \<and>
   distinct (map fst bridge_table) \<and>
   distinct (map (\<lambda>row. fst (snd row)) bridge_table) \<and>
   length bridge_table = 10"
proof -
  have "distinct (map fst bridge_table)"
    by (simp add: bridge_table_def)
  moreover have "distinct (map (\<lambda>row. fst (snd row)) bridge_table)"
    by (simp add: bridge_table_def)
  moreover have "length bridge_table = 10"
    by (simp add: bridge_table_def)
  moreover have "\<forall>row \<in> set bridge_table.
      \<exists>ev r c s. list_ex (\<lambda>call. matches_row call row) (invocations (snd (dispatch ev r c s)))"
    using every_row_invoked by blast
  ultimately show ?thesis
    using listed_dispatch listed_App_dispatch by blast
qed

text \<open>Compiling in the example session calls two rows; installing from the first App one.\<close>

theorem bridge_calls_match_table_witness:
  "invocations (snd (dispatch ClickCompile example_replies desktop_app desktop_app)) =
     [(''compile_contracts'', [(''projectPath'', JStr ''/tmp/proj'')]),
      (''list_contracts'', [(''projectPath'', JStr ''/tmp/proj'')])] \<and>
   list_all listed
     (invocations (snd (dispatch ClickCompile example_replies desktop_app desktop_app))) \<and>
   invocations (snd (App_dispatch App_ClickInstall example_replies desktop_app desktop_app)) =
     [(''install_hardhat'', [])] \<and>
   list_all listed
     (invocations (snd (App_dispatch App_ClickInstall example_replies desktop_app desktop_app)))"
proof -
  have a: "invocations (snd (dispatch ClickCompile example_replies desktop_app desktop_app)) =
     [(''compile_contracts'', [(''projectPath'', JStr ''/tmp/proj'')]),
      (''list_contracts'', [(''projectPath'', JStr ''/tmp/proj'')])]"
    by (simp add: dispatch_def inv_compile desktop_fields example_reply_fields)
  have b: "invocations (snd (App_dispatch App_ClickInstall example_replies desktop_app
                               desktop_app)) = [(''install_hardhat'', [])]"
    by (simp add: App_dispatch_def App_handleInstallHardhat_def example_reply_fields)
  from bridge_calls_match_table
         [of ClickCompile example_replies desktop_app desktop_app App_ClickInstall
             example_replies desktop_app desktop_app]
    a b
  show ?thesis by blast
qed

subsection \<open>The status is derived at each call\<close>

text \<open>
  Claim C2. The ToolchainStatus that \<^verbatim>\<open>check_status\<close> returns has the five fields
  \<open>installed\<close>, \<open>version\<close>, \<open>project_detected\<close>, \<open>project_path\<close> and
  \<open>network_running\<close>, and each is derived from the filesystem and network state at the
  call: whatever requests were handled before, the result is the same function of the
  environment and the path, the call leaves the core's state as it was, and handling a
  status request stores nothing. On the panel's side, \<^verbatim>\<open>checkHardhatStatus\<close> of either
  component hands to its caller, and displays, the reply of the call it has just made,
  whatever status was displayed before.
\<close>

theorem check_status_fresh:
  "fst (check_status env path (handle_all history lm)) =
     \<lparr>installed = (version_query env \<noteq> None),
      version = version_query env,
      project_detected =
        (find_config env (case path of None \<Rightarrow> default_path env | Some p \<Rightarrow> p) \<noteq> None),
      project_path =
        (if find_config env (case path of None \<Rightarrow> default_path env | Some p \<Rightarrow> p) = None
         then None else Some (case path of None \<Rightarrow> default_path env | Some p \<Rightarrow> p)),
      network_running = (''http://localhost:8545'' \<in> set (reachable env))\<rparr> \<and>
   snd (check_status env path lm) = lm \<and>
   handle_all (history @ [(env, CheckStatus path)]) lm = handle_all history lm \<and>
   fst (checkHardhatStatus c pp (Inr st) s) = (if isTauri c \<and> tauri_invoke c then st else None) \<and>
   hardhatStatus (fst (snd (checkHardhatStatus c pp (Inr st) s))) =
     (if isTauri c \<and> tauri_invoke c then st else Some fallback_status) \<and>
   fst (App_checkHardhatStatus pp (Inr st) s) = st \<and>
   hardhatStatus (fst (snd (App_checkHardhatStatus pp (Inr st) s))) = st"
proof -
  have "handle_all (h @ [(env, CheckStatus path)]) l = handle_all h l" for h l
    by (induction h l rule: handle_all.induct) (simp_all add: check_status_unfolded)
  moreover have "fst (checkHardhatStatus c pp (Inr st) s) =
                   (if isTauri c \<and> tauri_invoke c then st else None)"
    by (simp add: checkHardhatStatus_def Let_def split: option.splits)
  moreover have "hardhatStatus (fst (snd (checkHardhatStatus c pp (Inr st) s))) =
                   (if isTauri c \<and> tauri_invoke c then st else Some fallback_status)"
    by (simp add: checkHardhatStatus_def Let_def split: option.splits)
  moreover have "fst (App_checkHardhatStatus pp (Inr st) s) = st"
    and "hardhatStatus (fst (snd (App_checkHardhatStatus pp (Inr st) s))) = st"
    by (simp_all add: App_checkHardhatStatus_def)
  ultimately show ?thesis by (simp add: check_status_unfolded)
qed

text \<open>
  A status taken where the project exists and the network runs, and one taken later in
  an environment where neither is there: the second reports neither.
\<close>

theorem check_status_fresh_witness:
  "fst (check_status project_env (Some ''/tmp/proj'') idle) =
     \<lparr>installed = True, version = Some ''2.22.0'', project_detected = True,
      project_path = Some ''/tmp/proj'', network_running = True\<rparr> \<and>
   fst (check_status bare_env (Some ''/tmp/proj'')
          (handle_all [(project_env, CheckStatus (Some ''/tmp/proj'')),
                       (project_env, StartNetwork ''/tmp/proj'' (Some 4711) 0)] idle)) =
     \<lparr>installed = True, version = Some ''2.22.0'', project_detected = False,
      project_path = None, network_running = False\<rparr>"
proof -
  have f1: "find_config project_env ''/tmp/proj'' = Some ''hardhat.config.ts''"
    by (simp add: find_config_cases project_env_def)
  have f2: "find_config bare_env ''/tmp/proj'' = None"
    by (simp add: find_config_cases bare_env_def)
  have "handle_all [] idle = idle" by simp
  with check_status_fresh [of project_env "Some ''/tmp/proj''" "[]" idle] f1
  have 1: "fst (check_status project_env (Some ''/tmp/proj'') idle) =
     \<lparr>installed = True, version = Some ''2.22.0'', project_detected = True,
      project_path = Some ''/tmp/proj'', network_running = True\<rparr>"
    by (simp add: project_env_def)
  from check_status_fresh
         [of bare_env "Some ''/tmp/proj''"
             "[(project_env, CheckStatus (Some ''/tmp/proj'')),
               (project_env, StartNetwork ''/tmp/proj'' (Some 4711) 0)]" idle] f2
  have 2: "fst (check_status bare_env (Some ''/tmp/proj'')
          (handle_all [(project_env, CheckStatus (Some ''/tmp/proj'')),
                       (project_env, StartNetwork ''/tmp/proj'' (Some 4711) 0)] idle)) =
     \<lparr>installed = True, version = Some ''2.22.0'', project_detected = False,
      project_path = None, network_running = False\<rparr>"
    by (simp add: bare_env_def)
  from 1 2 show ?thesis by blast
qed

subsection \<open>The fields of a contract entry\<close>

text \<open>
  Claim C3, as amended. Every entry of the list that \<^verbatim>\<open>list_contracts\<close> returned is
  read as a record with the fields \<open>name\<close>, \<open>path\<close>, \<open>compiled\<close> and \<open>size\<close>:
  two entries that agree on these four fields give the same card, a card is produced
  exactly when \<open>path\<close> is a string (the size may be absent), and the card shows the
  name, the badge of \<open>compiled\<close>, the path relative to the project and the size.
\<close>

theorem contract_entry_fields:
  assumes "js_get a ''name'' = js_get b ''name''"
      and "js_get a ''path'' = js_get b ''path''"
      and "js_get a ''compiled'' = js_get b ''compiled''"
      and "js_get a ''size'' = js_get b ''size''"
  shows "renderContract cur a = renderContract cur b \<and>
         ((\<exists>card. renderContract cur a = Inr card) = (\<exists>p. js_get a ''path'' = JStr p)) \<and>
         (case js_get a ''path'' of
            JStr p \<Rightarrow>
              renderContract cur a =
                Inr \<lparr>card_name = js_get a ''name'',
                     card_badge = (if truthy (js_get a ''compiled'') then ''Compiled''
                                   else ''Not Compiled''),
                     card_path = js_replace (cur @ ''/'') [] p,
                     card_size = (if truthy (js_get a ''size'') then Some (js_get a ''size'')
                                  else None)\<rparr>
          | _ \<Rightarrow> renderContract cur a = Inl TypeError)"
  using assms by (simp add: renderContract_def split: jsval.splits)

text \<open>
  Claim C3 as stated names the fields \<open>source_path\<close> and \<open>size_bytes\<close>. An entry
  with these names has no \<open>path\<close> and no \<open>size\<close> for the panel: the render of the
  contracts panel throws.
\<close>

theorem contract_entry_source_path_counterexample:
  "renderContracts (desktop_app\<lparr>contracts := [entry_source_path]\<rparr>) = Inl TypeError \<and>
   js_get entry_source_path ''source_path'' = JStr ''/tmp/proj/contracts/Token.sol'' \<and>
   js_get entry_source_path ''size_bytes'' = JNum 2048 \<and>
   js_get entry_source_path ''path'' = JUndefined \<and>
   js_get entry_source_path ''size'' = JUndefined"
  by (simp add: renderContracts_def renderContract_def entry_source_path_def js_get_def
        desktop_app_def initial_app_def)

text \<open>
  The entry with \<open>path\<close> and \<open>size\<close> gives its card, with or without further fields
  named \<open>source_path\<close> and \<open>size_bytes\<close>.
\<close>

theorem contract_entry_fields_witness:
  "js_get (entry_path @ [(''source_path'', JStr ''x''), (''size_bytes'', JNum 1)]) ''path'' =
     js_get entry_path ''path'' \<and>
   renderContract ''/tmp/proj''
       (entry_path @ [(''source_path'', JStr ''x''), (''size_bytes'', JNum 1)]) =
     renderContract ''/tmp/proj'' entry_path \<and>
   renderContract ''/tmp/proj'' entry_path =
     Inr \<lparr>card_name = JStr ''Token'', card_badge = ''Compiled'',
          card_path = ''contracts/Token.sol'', card_size = Some (JNum 2048)\<rparr>"
proof -
  let ?a = "entry_path @ [(''source_path'', JStr ''x''), (''size_bytes'', JNum 1)]"
  have n: "js_get ?a ''name'' = js_get entry_path ''name''"
    and p: "js_get ?a ''path'' = js_get entry_path ''path''"
    and c: "js_get ?a ''compiled'' = js_get entry_path ''compiled''"
    and z: "js_get ?a ''size'' = js_get entry_path ''size''"
    by (simp_all add: js_get_def entry_path_def)
  have r: "renderContract ''/tmp/proj'' entry_path =
     Inr \<lparr>card_name = JStr ''Token'', card_badge = ''Compiled'',
          card_path = ''contracts/Token.sol'', card_size = Some (JNum 2048)\<rparr>"
    by (simp add: renderContract_def js_get_def entry_path_def)
  from contract_entry_fields [OF n p c z, of "''/tmp/proj''"] p r show ?thesis by blast
qed

subsection \<open>Starting twice\<close>

text \<open>
  Claim C4, as amended. For every project path, if \<^verbatim>\<open>start\<close> does not fail to spawn,
  then a second \<^verbatim>\<open>start\<close> in succession returns the same state as the first and
  leaves the manager as it was, so it spawns nothing; exactly one live process is tracked
  for the path after either call, and the two calls together spawned at most one process.
  If a ManagedProcess already exists for the path in Starting or Running, \<^verbatim>\<open>start\<close>
  returns the existing state without spawning.
\<close>

theorem start_twice_after_success:
  "(start spawn1 t1 p lm = (Inr st, lm1) \<longrightarrow>
      start spawn2 t2 p lm1 = (Inr st, lm1) \<and>
      live_count p lm1 = 1 \<and>
      live_count p (snd (start spawn2 t2 p lm1)) = 1 \<and>
      spawned (snd (start spawn2 t2 p lm1)) = spawned lm1 \<and>
      spawn_count p lm1 \<le> spawn_count p lm + 1) \<and>
   (managed lm p = Some mp \<and> is_active (mp_state mp) \<longrightarrow>
      start spawn1 t1 p lm = (Inr (mp_state mp), lm))"
proof (intro conjI impI)
  assume first: "start spawn1 t1 p lm = (Inr st, lm1)"
  from start_success_active [OF first] obtain mp
    where mp: "managed lm1 p = Some mp" "mp_state mp = st" "is_active st" by blast
  then show second: "start spawn2 t2 p lm1 = (Inr st, lm1)"
    using start_active [of lm1 p mp] by simp
  from mp show "live_count p lm1 = 1" by (simp add: live_count_def)
  with second show "live_count p (snd (start spawn2 t2 p lm1)) = 1" by simp
  from second show "spawned (snd (start spawn2 t2 p lm1)) = spawned lm1" by simp
  from first show "spawn_count p lm1 \<le> spawn_count p lm + 1"
    by (auto simp add: start_def spawn_process_def spawn_count_def
             split: option.splits if_splits)
next
  assume "managed lm p = Some mp \<and> is_active (mp_state mp)"
  then show "start spawn1 t1 p lm = (Inr (mp_state mp), lm)"
    using start_active by blast
qed

text \<open>
  Claim C4 as stated promises exactly one live process after two calls for every path.
  When spawning fails, as the failure semantics of the Lifecycle Manager allow, both
  calls report the failure and no process is live.
\<close>

theorem start_twice_spawn_failure_counterexample:
  "fst (start None 0 ''/tmp/proj'' idle) = Inl SpawnFailed \<and>
   fst (start None 1 ''/tmp/proj'' (snd (start None 0 ''/tmp/proj'' idle))) = Inl SpawnFailed \<and>
   live_count ''/tmp/proj''
     (snd (start None 1 ''/tmp/proj'' (snd (start None 0 ''/tmp/proj'' idle)))) = 0"
  by (simp add: start_def spawn_process_def idle_def live_count_def)

text \<open>Two calls on an idle manager whose first spawn succeeds: one process, one spawn.\<close>

theorem start_twice_after_success_witness:
  "fst (start (Some 4711) 0 ''/tmp/proj'' idle) = Inr Starting \<and>
   fst (start (Some 4712) 1 ''/tmp/proj'' (snd (start (Some 4711) 0 ''/tmp/proj'' idle))) =
     Inr Starting \<and>
   live_count ''/tmp/proj''
     (snd (start (Some 4712) 1 ''/tmp/proj'' (snd (start (Some 4711) 0 ''/tmp/proj'' idle)))) = 1 \<and>
   spawned (snd (start (Some 4712) 1 ''/tmp/proj'' (snd (start (Some 4711) 0 ''/tmp/proj'' idle)))) =
     [(''/tmp/proj'', 4711)]"
proof -
  let ?lm1 = "snd (start (Some 4711) 0 ''/tmp/proj'' idle)"
  have first: "start (Some 4711) 0 ''/tmp/proj'' idle = (Inr Starting, ?lm1)"
    by (simp add: start_def spawn_process_def idle_def)
  have log: "spawned ?lm1 = [(''/tmp/proj'', 4711)]"
    by (simp add: start_def spawn_process_def idle_def)
  have f1: "fst (start (Some 4711) 0 ''/tmp/proj'' idle) = Inr Starting"
    by (simp add: start_def spawn_process_def idle_def)
  note inst = start_twice_after_success
               [of "Some 4711" 0 "''/tmp/proj''" idle Starting ?lm1 "Some 4712" 1]
  from inst first have second: "start (Some 4712) 1 ''/tmp/proj'' ?lm1 = (Inr Starting, ?lm1)"
    by blast
  from inst first have live: "live_count ''/tmp/proj'' (snd (start (Some 4712) 1 ''/tmp/proj'' ?lm1)) = 1"
    by blast
  from inst first have same: "spawned (snd (start (Some 4712) 1 ''/tmp/proj'' ?lm1)) = spawned ?lm1"
    by blast
  have f2: "fst (start (Some 4712) 1 ''/tmp/proj'' ?lm1) = Inr Starting"
    by (subst second) simp
  from f1 f2 live same log show ?thesis by (simp only: simp_thms)
qed

subsection \<open>The endpoint\<close>

text \<open>
  Claim C5. Every provider call that any handler, effect or timer callback of either
  component makes goes to \<^verbatim>\<open>http://localhost:8545\<close>, in every state and with every
  reply: no state variable and no reply can direct a call elsewhere.
\<close>

theorem rpc_endpoint_fixed:
  "set (rpc_endpoints (snd (dispatch ev r c s))) \<subseteq> {''http://localhost:8545''} \<and>
   set (rpc_endpoints (snd (App_dispatch ev' r' c' s'))) \<subseteq> {''http://localhost:8545''}"
  using rpc_endpoints_dispatch rpc_endpoints_App_dispatch by blast

text \<open>A refresh in the example session makes four provider calls, all to that endpoint.\<close>

theorem rpc_endpoint_fixed_witness:
  "rpc_endpoints (snd (dispatch ClickRefresh example_replies desktop_app desktop_app)) =
     [''http://localhost:8545'', ''http://localhost:8545'', ''http://localhost:8545'',
      ''http://localhost:8545''] \<and>
   set (rpc_endpoints (snd (dispatch ClickRefresh example_replies desktop_app desktop_app)))
     \<subseteq> {''http://localhost:8545''} \<and>
   rpc_endpoints (snd (App_dispatch App_Mount example_replies desktop_app desktop_app)) = [] \<and>
   set (rpc_endpoints (snd (App_dispatch App_Mount example_replies desktop_app desktop_app)))
     \<subseteq> {''http://localhost:8545''}"
proof -
  have a: "rpc_endpoints (snd (dispatch ClickRefresh example_replies desktop_app desktop_app)) =
     [''http://localhost:8545'', ''http://localhost:8545'', ''http://localhost:8545'',
      ''http://localhost:8545'']"
    by (simp add: dispatch_def handleRefresh_def case_prod_beta rpc_endpoints_append
          rpc_endpoints_checkHardhatStatus loadBlockchainData_def example_reply_fields
          example_rpc_def Let_def)
  have b: "rpc_endpoints (snd (App_dispatch App_Mount example_replies desktop_app desktop_app)) = []"
    by (simp add: App_dispatch_def App_initializeApp_def case_prod_beta desktop_fields
          status_running_def rpc_endpoints_App_checkHardhatStatus)
  from rpc_endpoint_fixed
         [of ClickRefresh example_replies desktop_app desktop_app App_Mount example_replies
             desktop_app desktop_app]
    a b
  show ?thesis by blast
qed

subsection \<open>Project detection\<close>

text \<open>
  Claim C6. \<^verbatim>\<open>probe_project\<close> checks for exactly two configuration filenames,
  \<^verbatim>\<open>hardhat.config.js\<close> first and \<^verbatim>\<open>hardhat.config.ts\<close> second, at the given path, or
  at the default path when none is given; the first one present wins; when neither is
  present the result is \<^verbatim>\<open>detected=false\<close> without a resolved path, a result like any
  other and not an error.
\<close>

theorem probe_project_first_match:
  "config_filenames = [''hardhat.config.js'', ''hardhat.config.ts''] \<and>
   find_config env root =
     (if root @ ''/hardhat.config.js'' \<in> set (existing_files env) then Some ''hardhat.config.js''
      else if root @ ''/hardhat.config.ts'' \<in> set (existing_files env)
        then Some ''hardhat.config.ts''
      else None) \<and>
   probe_project env (Some root) =
     (if find_config env root = None then \<lparr>detected = False, resolved_path = None\<rparr>
      else \<lparr>detected = True, resolved_path = Some root\<rparr>) \<and>
   probe_project env None = probe_project env (Some (default_path env))"
  by (simp add: find_config_cases probe_project_def config_filenames_def)

text \<open>An empty directory, a project with a TypeScript configuration, and the default path.\<close>

theorem probe_project_first_match_witness:
  "probe_project bare_env (Some ''/tmp/proj'') = \<lparr>detected = False, resolved_path = None\<rparr> \<and>
   find_config project_env ''/tmp/proj'' = Some ''hardhat.config.ts'' \<and>
   probe_project project_env (Some ''/tmp/proj'') =
     \<lparr>detected = True, resolved_path = Some ''/tmp/proj''\<rparr> \<and>
   probe_project project_env None = \<lparr>detected = False, resolved_path = None\<rparr>"
proof -
  note bare = probe_project_first_match [of bare_env "''/tmp/proj''"]
  note proj = probe_project_first_match [of project_env "''/tmp/proj''"]
  note dflt = probe_project_first_match [of project_env "''/home/dev''"]
  have d: "default_path project_env = ''/home/dev''" by (simp add: project_env_def)
  have 1: "probe_project bare_env (Some ''/tmp/proj'') = \<lparr>detected = False, resolved_path = None\<rparr>"
    using bare by (simp add: bare_env_def)
  have 2: "find_config project_env ''/tmp/proj'' = Some ''hardhat.config.ts''"
    using proj by (simp add: project_env_def)
  have 3: "probe_project project_env (Some ''/tmp/proj'') =
             \<lparr>detected = True, resolved_path = Some ''/tmp/proj''\<rparr>"
    using proj 2 by simp
  have 4: "probe_project project_env None = \<lparr>detected = False, resolved_path = None\<rparr>"
    using dflt d by (simp add: project_env_def)
  from 1 2 3 4 show ?thesis by blast
qed

subsection \<open>Periodic refresh\<close>

text \<open>
  Claim C7. Periodic refresh lives in the panel alone. Of everything that can run, only
  the auto-refresh toggle starts an interval, with \<^verbatim>\<open>handleRefresh\<close> as its callback
  and a period of 10000 ms, and only the toggle and the cleanup of the interval effect
  clear one, namely the interval the panel holds; the first App component has none. The
  toggle flips \<open>autoRefresh\<close> and records or forgets the interval. Each run of the
  interval's callback makes at most one \<^verbatim>\<open>check_hardhat_status\<close> call, whose payload is
  a project path and nothing else: the status is pulled by request. On the core's side,
  handling a status request leaves the core's state as it was and its answer does not
  depend on that state: nothing is scheduled and nothing is left running.
\<close>

theorem auto_refresh_interval_in_panel:
  "interval_ops (snd (dispatch ev r c s)) =
     (if ev = ClickAutoRefresh \<and> \<not> autoRefresh c then [SetInterval (timer_id r) Refresh 10000]
      else if ev = ClickAutoRefresh \<or> ev = EffectCleanup then
        (case refreshInterval c of
           None \<Rightarrow> []
         | Some i \<Rightarrow> if i \<noteq> 0 then [ClearInterval i] else [])
      else []) \<and>
   interval_ops (snd (App_dispatch ev' r' c' s')) = [] \<and>
   autoRefresh (fst (dispatch ClickAutoRefresh r c s)) = (\<not> autoRefresh c) \<and>
   refreshInterval (fst (dispatch ClickAutoRefresh r c s)) =
     (if \<not> autoRefresh c then Some (timer_id r)
      else if refreshInterval c = None \<or> refreshInterval c = Some 0 then refreshInterval s
      else None) \<and>
   invocations (snd (dispatch (TimerFired Refresh) r c s)) =
     (if isTauri c \<and> tauri_invoke c then
        [(''check_hardhat_status'',
          [(''projectPath'',
            of_path (or_else (Some (currentProjectPath c))
                       (or_else (status_path (hardhatStatus c))
                          (or_else (Some (selectedProjectPath c)) None))))])]
      else []) \<and>
   handle env (CheckStatus path) lm = lm \<and>
   fst (check_status env path lm) = fst (check_status env path lm')"
proof -
  have "handle env (CheckStatus path) lm = lm"
    and "fst (check_status env path lm) = fst (check_status env path lm')"
    by (simp_all add: check_status_def)
  moreover
  have "autoRefresh (fst (dispatch ClickAutoRefresh r c s)) = (\<not> autoRefresh c)"
    by (simp add: dispatch_def toggleAutoRefresh_def split: option.splits)
  moreover have "refreshInterval (fst (dispatch ClickAutoRefresh r c s)) =
     (if \<not> autoRefresh c then Some (timer_id r)
      else if refreshInterval c = None \<or> refreshInterval c = Some 0 then refreshInterval s
      else None)"
    by (simp add: dispatch_def toggleAutoRefresh_def split: option.splits)
  moreover have "invocations (snd (dispatch (TimerFired Refresh) r c s)) =
     (if isTauri c \<and> tauri_invoke c then
        [(''check_hardhat_status'',
          [(''projectPath'',
            of_path (or_else (Some (currentProjectPath c))
                       (or_else (status_path (hardhatStatus c))
                          (or_else (Some (selectedProjectPath c)) None))))])]
      else [])"
    by (simp add: dispatch_def inv_callback)
  ultimately show ?thesis
    using interval_ops_dispatch [of ev r c s] interval_ops_App_dispatch [of ev' r' c' s']
    by simp
qed

text \<open>
  Switching auto-refresh on starts interval 7; switching it off in the next render
  clears interval 7; a tick pulls the status of the tracked project.
\<close>

theorem auto_refresh_interval_in_panel_witness:
  "interval_ops (snd (dispatch ClickAutoRefresh example_replies desktop_app desktop_app)) =
     [SetInterval 7 Refresh 10000] \<and>
   refreshInterval (fst (dispatch ClickAutoRefresh example_replies desktop_app desktop_app)) =
     Some 7 \<and>
   autoRefresh (fst (dispatch ClickAutoRefresh example_replies desktop_app desktop_app)) \<and>
   interval_ops
     (snd (dispatch ClickAutoRefresh example_replies
             (fst (dispatch ClickAutoRefresh example_replies desktop_app desktop_app))
             (fst (dispatch ClickAutoRefresh example_replies desktop_app desktop_app)))) =
     [ClearInterval 7] \<and>
   invocations (snd (dispatch (TimerFired Refresh) example_replies desktop_app desktop_app)) =
     [(''check_hardhat_status'', [(''projectPath'', JStr ''/tmp/proj'')])]"
proof -
  let ?on = "fst (dispatch ClickAutoRefresh example_replies desktop_app desktop_app)"
  note first = auto_refresh_interval_in_panel
                 [of ClickAutoRefresh example_replies desktop_app desktop_app App_Mount
                     example_replies desktop_app desktop_app]
  have on: "autoRefresh ?on" "refreshInterval ?on = Some 7"
    using first by (simp_all add: desktop_fields example_reply_fields)
  note second = auto_refresh_interval_in_panel
                  [of ClickAutoRefresh example_replies ?on ?on App_Mount example_replies
                      desktop_app desktop_app]
  have off: "interval_ops (snd (dispatch ClickAutoRefresh example_replies ?on ?on)) =
               [ClearInterval 7]"
    using second on by simp
  from first on off show ?thesis
    by (simp add: desktop_fields example_reply_fields)
qed

subsection \<open>No bridge\<close>

text \<open>
  Claim C8. When the Tauri bridge is unavailable (the page does not run inside Tauri, or
  the invoke API has not been loaded), \<^verbatim>\<open>checkHardhatStatus\<close> makes no backend
  invocation (its list of effects is empty), returns \<^verbatim>\<open>null\<close> to its caller, and sets
  the displayed status to exactly the record with \<open>installed\<close> false, \<open>version\<close>
  null, \<open>project_detected\<close> false, \<open>project_path\<close> null and \<open>network_running\<close>
  false, whatever the argument, the reply and the state are.
\<close>

theorem checkHardhatStatus_without_bridge:
  assumes "\<not> isTauri c \<or> \<not> tauri_invoke c"
  shows "checkHardhatStatus c projectPath reply s =
           (None,
            s\<lparr>hardhatStatus :=
                 Some \<lparr>installed = False, version = None, project_detected = False,
                       project_path = None, network_running = False\<rparr>\<rparr>,
            [])"
  using assms by (auto simp add: checkHardhatStatus_def fallback_status_def)

text \<open>In the browser, on the first render, the fallback status replaces the empty one.\<close>

theorem checkHardhatStatus_without_bridge_witness:
  "\<not> isTauri (initial_app False) \<and>
   checkHardhatStatus (initial_app False) (Some ''/tmp/proj'') (Inr (Some example_status))
       (initial_app False) =
     (None,
      (initial_app False)
        \<lparr>hardhatStatus :=
           Some \<lparr>installed = False, version = None, project_detected = False,
                 project_path = None, network_running = False\<rparr>\<rparr>,
      [])"
  using checkHardhatStatus_without_bridge
          [of "initial_app False" "Some ''/tmp/proj''" "Inr (Some example_status)"
              "initial_app False"]
  by (simp add: initial_app_def)

subsection \<open>The verification task\<close>

text \<open>
  Claim C9. Whatever runs, in whatever state and with whatever replies, a
  \<^verbatim>\<open>run_hardhat_task\<close> invocation whose task is \<^verbatim>\<open>verify\<close> comes from the submit
  of the verification form only; the contract address of the form is then a non-empty
  string and the first argument; the argument list is the one described (constructor
  arguments split on commas, trimmed, the empty pieces dropped, the
  \<^verbatim>\<open>--constructor-args\<close> flag only when a piece remains); and no argument is the
  empty string.
\<close>

theorem verify_task_arguments:
  assumes "(''run_hardhat_task'', payload) \<in> set (invocations (snd (dispatch ev r c s)))"
      and "js_get payload ''task'' = JStr ''verify''"
  shows "ev = SubmitVerify \<and>
         contractAddress (verifyForm c) \<noteq> [] \<and>
         js_get payload ''args'' = JArr (verify_args (verifyForm c)) \<and>
         hd (verify_args (verifyForm c)) = contractAddress (verifyForm c) \<and>
         verify_args (verifyForm c) = verify_args_spec (verifyForm c) \<and>
         [] \<notin> set (verify_args (verifyForm c))"
proof -
  from task_call_dispatch [OF assms(1)] assms(2)
  have ev: "ev = SubmitVerify" and addr: "contractAddress (verifyForm c) \<noteq> []"
    and args: "js_get payload ''args'' = JArr (verify_args (verifyForm c))"
    by auto
  have "hd (verify_args_spec (verifyForm c)) = contractAddress (verifyForm c)"
    by (simp add: verify_args_spec_def Let_def)
  with ev addr args verify_args_spec_no_empty [OF addr] show ?thesis
    by (simp add: verify_args_eq_spec)
qed

text \<open>
  The form with address \<^verbatim>\<open>0xabc\<close> and constructor arguments \<^verbatim>\<open>7, ,owner\<close>: the blank
  piece is dropped.
\<close>

theorem verify_task_arguments_witness:
  "(''run_hardhat_task'',
    [(''projectPath'', JStr ''/tmp/proj''), (''task'', JStr ''verify''),
     (''args'', JArr [''0xabc'', ''--constructor-args'', ''7'', ''owner''])])
     \<in> set (invocations (snd (dispatch SubmitVerify example_replies desktop_app desktop_app))) \<and>
   verify_args (verifyForm desktop_app) = [''0xabc'', ''--constructor-args'', ''7'', ''owner''] \<and>
   [] \<notin> set (verify_args (verifyForm desktop_app))"
proof -
  have args: "verify_args (verifyForm desktop_app) =
                [''0xabc'', ''--constructor-args'', ''7'', ''owner'']"
    by (simp add: verify_args_def desktop_app_def initial_app_def js_trim_def is_js_space_def)
  have call: "(''run_hardhat_task'',
      [(''projectPath'', JStr ''/tmp/proj''), (''task'', JStr ''verify''),
       (''args'', JArr [''0xabc'', ''--constructor-args'', ''7'', ''owner''])])
     \<in> set (invocations (snd (dispatch SubmitVerify example_replies desktop_app desktop_app)))"
    by (simp add: dispatch_def inv_verify args) (simp add: desktop_app_def initial_app_def)
  have task: "js_get [(''projectPath'', JStr ''/tmp/proj''), (''task'', JStr ''verify''),
       (''args'', JArr [''0xabc'', ''--constructor-args'', ''7'', ''owner''])] ''task'' =
       JStr ''verify''"
    by (simp add: js_get_def)
  from verify_task_arguments [OF call task]
  have ne: "[] \<notin> set (verify_args (verifyForm desktop_app))" by blast
  from call args ne show ?thesis by blast
qed

subsection \<open>The tracked project path\<close>

text \<open>
  Claim C10, as amended. After a \<^verbatim>\<open>check_hardhat_status\<close> call whose result has
  \<open>project_detected\<close> true and a \<open>project_path\<close> that is a non-empty string, the
  tracked current project path and the selected project path are both that path, and
  every compile, test, deploy, task and console invocation made from the render that
  follows passes that path as its \<^verbatim>\<open>projectPath\<close>. From then on, in every render
  whatever its state, each of these invocations passes the tracked current path of that
  render (not the selected one); an event changes the tracked path only when it makes a
  \<^verbatim>\<open>check_hardhat_status\<close> call; so after any sequence of events that makes no such
  call the tracked path is still the returned one, and every such invocation of the
  sequence has passed it.
\<close>

theorem tracked_path_after_status:
  assumes "isTauri c \<and> tauri_invoke c"
      and "project_detected st"
      and "project_path st = Some p"
      and "p \<noteq> []"
  shows "currentProjectPath (fst (snd (checkHardhatStatus c pp (Inr (Some st)) s))) = p \<and>
         selectedProjectPath (fst (snd (checkHardhatStatus c pp (Inr (Some st)) s))) = p \<and>
         list_all (\<lambda>call. fst call \<in> set project_commands \<longrightarrow>
                     js_get (snd call) ''projectPath'' = JStr p)
           (invocations
              (snd (dispatch ev r (fst (snd (checkHardhatStatus c pp (Inr (Some st)) s))) s'))) \<and>
         list_all (\<lambda>call. fst call \<in> set project_commands \<longrightarrow>
                     js_get (snd call) ''projectPath'' = JStr (currentProjectPath c'))
           (invocations (snd (dispatch ev' r' c' s''))) \<and>
         (list_ex (\<lambda>call. fst call = ''check_hardhat_status'')
            (invocations (snd (dispatch ev' r' c' s''))) \<or>
          currentProjectPath (fst (dispatch ev' r' c' s'')) = currentProjectPath s'') \<and>
         (list_ex (\<lambda>call. fst call = ''check_hardhat_status'')
            (run_calls evs (fst (snd (checkHardhatStatus c pp (Inr (Some st)) s)))) \<or>
          currentProjectPath (run evs (fst (snd (checkHardhatStatus c pp (Inr (Some st)) s)))) = p) \<and>
         (list_ex (\<lambda>call. fst call = ''check_hardhat_status'')
            (run_calls evs (fst (snd (checkHardhatStatus c pp (Inr (Some st)) s)))) \<or>
          list_all (\<lambda>call. fst call \<in> set project_commands \<longrightarrow>
                      js_get (snd call) ''projectPath'' = JStr p)
            (run_calls evs (fst (snd (checkHardhatStatus c pp (Inr (Some st)) s)))))"
proof -
  let ?s1 = "fst (snd (checkHardhatStatus c pp (Inr (Some st)) s))"
  from assms have cur: "currentProjectPath ?s1 = p" and sel: "selectedProjectPath ?s1 = p"
    by (simp_all add: checkHardhatStatus_def Let_def)
  from project_call_dispatch [of ?s1 ev r s'] cur
  have next_render: "list_all (\<lambda>call. fst call \<in> set project_commands \<longrightarrow>
                     js_get (snd call) ''projectPath'' = JStr p)
           (invocations (snd (dispatch ev r ?s1 s')))"
    by simp
  from run_tracked_path_kept [of evs ?s1] cur
  have kept: "list_ex (\<lambda>call. fst call = ''check_hardhat_status'') (run_calls evs ?s1) \<or>
              currentProjectPath (run evs ?s1) = p"
    by simp
  from run_project_calls [of evs ?s1] cur
  have passed: "list_ex (\<lambda>call. fst call = ''check_hardhat_status'') (run_calls evs ?s1) \<or>
                list_all (\<lambda>call. fst call \<in> set project_commands \<longrightarrow>
                            js_get (snd call) ''projectPath'' = JStr p)
                  (run_calls evs ?s1)"
    by simp
  from cur sel next_render kept passed project_call_dispatch [of c' ev' r' s'']
       tracked_path_kept [of ev' r' c' s'']
  show ?thesis by blast
qed

text \<open>
  Claim C10 as stated asks for the update whenever the returned path is not null. The
  guard of the code is the truthiness of the path: a result with \<open>project_detected\<close>
  true and the empty string as its path leaves the tracked and the selected path at
  \<^verbatim>\<open>/tmp/proj\<close>.
\<close>

theorem tracked_path_empty_counterexample:
  "project_detected empty_path_status \<and>
   project_path empty_path_status = Some [] \<and>
   invocations (snd (snd (checkHardhatStatus desktop_app None (Inr (Some empty_path_status))
                            desktop_app))) =
     [(''check_hardhat_status'', [(''projectPath'', JNull)])] \<and>
   currentProjectPath (fst (snd (checkHardhatStatus desktop_app None
                                   (Inr (Some empty_path_status)) desktop_app))) = ''/tmp/proj'' \<and>
   selectedProjectPath (fst (snd (checkHardhatStatus desktop_app None
                                    (Inr (Some empty_path_status)) desktop_app))) = ''/tmp/proj''"
  by (simp add: checkHardhatStatus_def Let_def empty_path_status_def desktop_app_def
        initial_app_def)

text \<open>
  A desktop session receives the status of the project at \<^verbatim>\<open>/tmp/proj\<close>; then the
  directory \<^verbatim>\<open>/other\<close>, which holds no project, is picked: the selected path is
  \<^verbatim>\<open>/other\<close>, the tracked path is still \<^verbatim>\<open>/tmp/proj\<close>, and the tests are run
  on \<^verbatim>\<open>/tmp/proj\<close>.
\<close>

theorem tracked_path_after_status_witness:
  "(isTauri loaded_app \<and> tauri_invoke loaded_app) \<and>
   project_detected example_status \<and>
   project_path example_status = Some ''/tmp/proj'' \<and>
   currentProjectPath
     (fst (snd (checkHardhatStatus loaded_app None (Inr (Some example_status)) loaded_app))) =
     ''/tmp/proj'' \<and>
   selectedProjectPath
     (fst (snd (checkHardhatStatus loaded_app None (Inr (Some example_status)) loaded_app))) =
     ''/tmp/proj'' \<and>
   selectedProjectPath
     (run [(ClickSelectProject, other_directory_replies)]
        (fst (snd (checkHardhatStatus loaded_app None (Inr (Some example_status)) loaded_app)))) =
     ''/other'' \<and>
   currentProjectPath
     (run [(ClickSelectProject, other_directory_replies)]
        (fst (snd (checkHardhatStatus loaded_app None (Inr (Some example_status)) loaded_app)))) =
     ''/tmp/proj'' \<and>
   invocations
     (snd (dispatch ClickRunTests example_replies
             (run [(ClickSelectProject, other_directory_replies)]
                (fst (snd (checkHardhatStatus loaded_app None (Inr (Some example_status))
                             loaded_app))))
             (run [(ClickSelectProject, other_directory_replies)]
                (fst (snd (checkHardhatStatus loaded_app None (Inr (Some example_status))
                             loaded_app)))))) =
     [(''run_tests'', [(''projectPath'', JStr ''/tmp/proj'')])] \<and>
   list_all (\<lambda>call. js_get (snd call) ''projectPath'' = JStr ''/tmp/proj'')
     (invocations
        (snd (dispatch ClickRunTests example_replies
                (run [(ClickSelectProject, other_directory_replies)]
                   (fst (snd (checkHardhatStatus loaded_app None (Inr (Some example_status))
                                loaded_app))))
                (run [(ClickSelectProject, other_directory_replies)]
                   (fst (snd (checkHardhatStatus loaded_app None (Inr (Some example_status))
                                loaded_app)))))))"
proof -
  let ?s1 = "fst (snd (checkHardhatStatus loaded_app None (Inr (Some example_status)) loaded_app))"
  let ?s2 = "run [(ClickSelectProject, other_directory_replies)] ?s1"
  have a: "isTauri loaded_app \<and> tauri_invoke loaded_app"
    by (simp add: loaded_app_def initial_app_def)
  have b: "project_detected example_status" by (simp add: example_status_def)
  have c: "project_path example_status = Some ''/tmp/proj''" by (simp add: example_status_def)
  have d: "''/tmp/proj'' \<noteq> []" by simp
  note inst = tracked_path_after_status
                [OF a b c d, where pp = None and s = loaded_app and ev = ClickRunTests
                   and r = example_replies and s' = ?s2 and c' = ?s2 and ev' = ClickRunTests
                   and r' = example_replies and s'' = ?s2
                   and evs = "[(ClickSelectProject, other_directory_replies)]"]
  have flags: "isTauri loaded_app" "tauri_invoke loaded_app" "tauri_open loaded_app"
    by (simp_all add: loaded_app_def initial_app_def)
  have s1: "?s1 = loaded_app\<lparr>hardhatStatus := Some example_status,
                              currentProjectPath := ''/tmp/proj'',
                              selectedProjectPath := ''/tmp/proj''\<rparr>"
    by (simp add: checkHardhatStatus_def Let_def flags b c)
  from inst have cur1: "currentProjectPath ?s1 = ''/tmp/proj''"
    and sel1: "selectedProjectPath ?s1 = ''/tmp/proj''"
    by blast+
  have replies: "dialog_reply other_directory_replies = Inr (Some ''/other'')"
    "status_reply other_directory_replies = Inr (Some no_project_status)"
    by (simp_all add: other_directory_replies_def)
  have none: "project_path no_project_status = None"
    by (simp add: no_project_status_def)
  have s2: "?s2 = loaded_app\<lparr>hardhatStatus := Some no_project_status,
                              currentProjectPath := ''/tmp/proj'',
                              selectedProjectPath := ''/other''\<rparr>"
    unfolding s1
    by (simp add: dispatch_def handleSelectProject_def checkHardhatStatus_def Let_def flags
          replies none)
  have sel2: "selectedProjectPath ?s2 = ''/other''"
    and cur2: "currentProjectPath ?s2 = ''/tmp/proj''"
    and flags2: "isTauri ?s2" "tauri_invoke ?s2"
    unfolding s2 by (simp_all add: flags)
  have calls: "invocations (snd (dispatch ClickRunTests example_replies ?s2 ?s2)) =
                 [(''run_tests'', [(''projectPath'', JStr ''/tmp/proj'')])]"
    unfolding s2 by (simp add: dispatch_def inv_tests flags)
  from inst
  have passed: "list_all (\<lambda>call. fst call \<in> set project_commands \<longrightarrow>
                   js_get (snd call) ''projectPath'' = JStr (currentProjectPath ?s2))
                  (invocations (snd (dispatch ClickRunTests example_replies ?s2 ?s2)))"
    by blast
  have all: "list_all (\<lambda>call. js_get (snd call) ''projectPath'' = JStr ''/tmp/proj'')
               (invocations (snd (dispatch ClickRunTests example_replies ?s2 ?s2)))"
    using passed unfolding calls cur2 by (simp add: project_commands_def)
  from a b c cur1 sel1 sel2 cur2 calls all show ?thesis by blast
qed

end
